theory Spec2Isabelle
  imports Complex_Main "HOL-Library.AList" "HOL-Library.Stream" "HOL-Library.Log_Nat"
begin

section \<open>Data model (sources/models.py, sources/university.py)\<close>

text \<open>
  Python objects are mutable and shared by reference: a Student is referenced from a
  University's student list, from the rosters of Exams and is handed to Library methods.
  The program state is therefore an explicit object store: every object of a mutable class
  lives at a reference, and the fields that point to other objects hold references.
  A Python reference always denotes an object, so each store is a total function.
  Book is a frozen dataclass compared by value; it is a plain value here. The messages
  written with \<^verbatim>\<open>print\<close> are not part of the state and are left out.
\<close>

type_synonym ref = nat

text \<open>The exceptions of sources/exceptions.py and the built-in ones the methods can raise.\<close>

datatype error =
    ValueError
  | KeyError
  | ZeroDivisionError
  | OverflowError
  | ResourceError
  | EnrollmentError
  | StateError
  | StorageError

text \<open>
  A Python float is an IEEE 754 binary64 value. A finite value is kept as the rational
  number it denotes (the two zeros, which compare equal in Python, are both \<open>Finite 0\<close>).
\<close>

datatype pyfloat = Finite rat | PosInf | NegInf | NaN

datatype TeacherDegree =
    DOCTOR_OF_SCIENCES
  | CANDIDATE_OF_SCIENCES
  | ASSOCIATE_PROFESSOR
  | PROFESSOR
  | SENIOR_LECTURER
  | LECTURER

record Book =
  title :: string
  author :: string
  isbn :: string

record Curriculum =
  specialty_name :: string
  required_subjects :: "string list"

record Classroom =
  number :: int
  capacity :: int
  is_occupied :: bool

record Person =
  full_name :: string
  age :: int
  person_id :: string

text \<open>
  \<open>record_book\<close> is a \<^verbatim>\<open>dict[str, int]\<close>: an association list in insertion order, written
  with \<^const>\<open>AList.update\<close> (an existing key keeps its place and gets the new value, a new
  key goes to the end), read with \<^const>\<open>map_of\<close>.
\<close>

record Student = Person +
  curriculum :: "ref option"
  scholarship_amount :: pyfloat
  record_book :: "(string \<times> int) list"
  borrowed_books :: "Book list"

record Teacher = Person +
  degree :: "TeacherDegree option"
  subjects :: "string list"

record ScholarshipDepartment =
  min_average_score :: pyfloat
  base_amount :: pyfloat

record Library =
  inventory :: "(Book \<times> int) list"

type_synonym datetime = int

record Exam =
  subject :: string
  date :: datetime
  teacher :: ref
  classroom :: ref
  registered_students :: "ref list"

record University =
  name :: string
  library :: ref
  accounting :: ScholarshipDepartment
  students :: "ref list"
  teachers :: "ref list"
  classrooms :: "ref list"
  curriculums :: "ref list"
  exams :: "Exam list"

record heap =
  student_at :: "ref \<Rightarrow> Student"
  teacher_at :: "ref \<Rightarrow> Teacher"
  classroom_at :: "ref \<Rightarrow> Classroom"
  curriculum_at :: "ref \<Rightarrow> Curriculum"
  library_at :: "ref \<Rightarrow> Library"
  university_at :: "ref \<Rightarrow> University"
  next_ref :: ref

section \<open>Student\<close>

text \<open>
  \<^verbatim>\<open>Student.take_exam(self, subject_name, grade)\<close>. A method that raises leaves the state as
  it is at the raise, so every method returns its result together with the state.
  \<^verbatim>\<open>self.curriculum and ...\<close>: a Curriculum object is always truthy, \<^verbatim>\<open>None\<close> is not.
\<close>

definition take_exam :: "ref \<Rightarrow> string \<Rightarrow> int \<Rightarrow> heap \<Rightarrow> (error + unit) \<times> heap" where
  "take_exam self subject_name grade h =
     (if \<not> (0 \<le> grade \<and> grade \<le> 10) then (Inl ValueError, h)
      else if (case curriculum (student_at h self) of
                 None \<Rightarrow> False
               | Some c \<Rightarrow> subject_name \<notin> set (required_subjects (curriculum_at h c)))
      then (Inl EnrollmentError, h)
      else (Inr (),
            h\<lparr>student_at := (student_at h)
                 (self := (student_at h self)
                    \<lparr>record_book := AList.update subject_name grade
                                      (record_book (student_at h self))\<rparr>)\<rparr>))"

text \<open>\<^verbatim>\<open>Student.borrow_book\<close>: \<^verbatim>\<open>book in self.borrowed_books\<close> compares Books by value.\<close>

definition borrow_book :: "ref \<Rightarrow> Book \<Rightarrow> heap \<Rightarrow> (error + unit) \<times> heap" where
  "borrow_book self book h =
     (if book \<in> set (borrowed_books (student_at h self)) then (Inl ResourceError, h)
      else (Inr (),
            h\<lparr>student_at := (student_at h)
                 (self := (student_at h self)
                    \<lparr>borrowed_books := borrowed_books (student_at h self) @ [book]\<rparr>)\<rparr>))"

text \<open>\<^verbatim>\<open>Student.return_book\<close>: \<^verbatim>\<open>list.remove\<close> deletes the first equal element.\<close>

definition return_book :: "ref \<Rightarrow> Book \<Rightarrow> heap \<Rightarrow> (error + unit) \<times> heap" where
  "return_book self book h =
     (if book \<in> set (borrowed_books (student_at h self))
      then (Inr (),
            h\<lparr>student_at := (student_at h)
                 (self := (student_at h self)
                    \<lparr>borrowed_books := remove1 book (borrowed_books (student_at h self))\<rparr>)\<rparr>)
      else (Inl ResourceError, h))"

section \<open>Classroom\<close>

definition occupy :: "ref \<Rightarrow> heap \<Rightarrow> (error + unit) \<times> heap" where
  "occupy self h =
     (if is_occupied (classroom_at h self) then (Inl StateError, h)
      else (Inr (),
            h\<lparr>classroom_at := (classroom_at h)
                 (self := (classroom_at h self)\<lparr>is_occupied := True\<rparr>)\<rparr>))"

definition vacate :: "ref \<Rightarrow> heap \<Rightarrow> (error + unit) \<times> heap" where
  "vacate self h =
     (if \<not> is_occupied (classroom_at h self) then (Inl StateError, h)
      else (Inr (),
            h\<lparr>classroom_at := (classroom_at h)
                 (self := (classroom_at h self)\<lparr>is_occupied := False\<rparr>)\<rparr>))"

section \<open>Teacher\<close>

text \<open>\<^verbatim>\<open>Teacher.evaluate_student\<close> delegates to the student; the teacher is only printed.\<close>

definition evaluate_student :: "ref \<Rightarrow> ref \<Rightarrow> string \<Rightarrow> int \<Rightarrow> heap \<Rightarrow> (error + unit) \<times> heap" where
  "evaluate_student self student subj grade h = take_exam student subj grade h"

section \<open>Library\<close>

text \<open>
  \<open>inventory\<close> is a \<^verbatim>\<open>dict[Book, int]\<close>, iterated in insertion order. \<^verbatim>\<open>d[k]\<close> on a missing
  key raises \<^verbatim>\<open>KeyError\<close>.
\<close>

definition dict_getitem :: "('k \<times> 'v) list \<Rightarrow> 'k \<Rightarrow> error + 'v" where
  "dict_getitem d k = (case map_of d k of None \<Rightarrow> Inl KeyError | Some v \<Rightarrow> Inr v)"

definition set_inventory :: "ref \<Rightarrow> (Book \<times> int) list \<Rightarrow> heap \<Rightarrow> heap" where
  "set_inventory self stock h =
     h\<lparr>library_at := (library_at h)(self := (library_at h self)\<lparr>inventory := stock\<rparr>)\<rparr>"

definition add_book :: "ref \<Rightarrow> Book \<Rightarrow> int \<Rightarrow> heap \<Rightarrow> (error + unit) \<times> heap" where
  "add_book self book quantity h =
     (let stock = inventory (library_at h self) in
      if book \<in> fst ` set stock
      then (case dict_getitem stock book of
              Inl e \<Rightarrow> (Inl e, h)
            | Inr c \<Rightarrow> (Inr (), set_inventory self (AList.update book (c + quantity) stock) h))
      else (Inr (), set_inventory self (AList.update book quantity stock) h))"

text \<open>
  \<^verbatim>\<open>next((b for b in self.inventory if b.title == book_title), None)\<close>: the first key, in
  insertion order, with that title.
\<close>

definition find_by_title :: "(Book \<times> int) list \<Rightarrow> string \<Rightarrow> Book option" where
  "find_by_title stock book_title = find (\<lambda>b. title b = book_title) (map fst stock)"

definition lend_book :: "ref \<Rightarrow> ref \<Rightarrow> string \<Rightarrow> heap \<Rightarrow> (error + unit) \<times> heap" where
  "lend_book self student book_title h =
     (case find_by_title (inventory (library_at h self)) book_title of
        None \<Rightarrow> (Inl ResourceError, h)
      | Some found_book \<Rightarrow>
          (case dict_getitem (inventory (library_at h self)) found_book of
             Inl e \<Rightarrow> (Inl e, h)
           | Inr c \<Rightarrow>
               if c \<le> 0 then (Inl ResourceError, h)
               else (case borrow_book student found_book h of
                       (Inl e, h1) \<Rightarrow> (Inl e, h1)
                     | (Inr _, h1) \<Rightarrow>
                         (case dict_getitem (inventory (library_at h1 self)) found_book of
                            Inl e \<Rightarrow> (Inl e, h1)
                          | Inr c1 \<Rightarrow>
                              (Inr (),
                               set_inventory self
                                 (AList.update found_book (c1 - 1) (inventory (library_at h1 self)))
                                 h1)))))"

definition accept_return :: "ref \<Rightarrow> ref \<Rightarrow> string \<Rightarrow> heap \<Rightarrow> (error + unit) \<times> heap" where
  "accept_return self student book_title h =
     (case find_by_title (inventory (library_at h self)) book_title of
        None \<Rightarrow> (Inl ResourceError, h)
      | Some found_book \<Rightarrow>
          if found_book \<notin> set (borrowed_books (student_at h student))
          then (Inl ResourceError, h)
          else (case return_book student found_book h of
                  (Inl e, h1) \<Rightarrow> (Inl e, h1)
                | (Inr _, h1) \<Rightarrow>
                    (case dict_getitem (inventory (library_at h1 self)) found_book of
                       Inl e \<Rightarrow> (Inl e, h1)
                     | Inr c1 \<Rightarrow>
                         (Inr (),
                          set_inventory self
                            (AList.update found_book (c1 + 1) (inventory (library_at h1 self)))
                            h1))))"

text \<open>
  A caller's session with one library: the calls are made one after the other, and a call
  that raises is caught by the caller, the state staying as the call left it.
\<close>

datatype library_call =
    AddBook Book int
  | LendBook ref string
  | AcceptReturn ref string

fun library_step :: "ref \<Rightarrow> library_call \<Rightarrow> heap \<Rightarrow> heap" where
  "library_step lib (AddBook book quantity) h = snd (add_book lib book quantity h)"
| "library_step lib (LendBook student book_title) h = snd (lend_book lib student book_title h)"
| "library_step lib (AcceptReturn student book_title) h = snd (accept_return lib student book_title h)"

fun library_run :: "ref \<Rightarrow> library_call list \<Rightarrow> heap \<Rightarrow> heap" where
  "library_run lib [] h = h"
| "library_run lib (c # cs) h = library_run lib cs (library_step lib c h)"

section \<open>Exam\<close>

text \<open>
  \<^verbatim>\<open>random.randint(a, b)\<close> draws from the generator's state: the state is a stream of raw
  draws, and the result is some integer of \<open>[a, b]\<close>, any of them for a suitable draw.
  It raises \<^verbatim>\<open>ValueError\<close> on an empty range.
\<close>

definition randint :: "int \<Rightarrow> int \<Rightarrow> nat stream \<Rightarrow> (error + int) \<times> nat stream" where
  "randint a b g =
     (if b < a then (Inl ValueError, g)
      else (Inr (a + int (shd g mod nat (b - a + 1))), stl g))"

text \<open>
  The loop of \<^verbatim>\<open>Exam.conduct\<close> over \<^verbatim>\<open>self.registered_students\<close>, with the list
  \<^verbatim>\<open>students_to_expel\<close> built so far. An exception of \<^verbatim>\<open>evaluate_student\<close> leaves the loop
  and the method at once.
\<close>

fun grade_students ::
  "ref \<Rightarrow> string \<Rightarrow> ref list \<Rightarrow> ref list \<Rightarrow> nat stream \<Rightarrow> heap
     \<Rightarrow> (error + ref list) \<times> heap \<times> nat stream" where
  "grade_students tch subj [] students_to_expel g h = (Inr students_to_expel, h, g)"
| "grade_students tch subj (student # rest) students_to_expel g h =
     (case randint 1 10 g of
        (Inl e, g1) \<Rightarrow> (Inl e, h, g1)
      | (Inr grade, g1) \<Rightarrow>
          (case evaluate_student tch student subj grade h of
             (Inl e, h1) \<Rightarrow> (Inl e, h1, g1)
           | (Inr _, h1) \<Rightarrow>
               grade_students tch subj rest
                 (if grade < 4 then students_to_expel @ [student] else students_to_expel)
                 g1 h1))"

definition conduct :: "Exam \<Rightarrow> nat stream \<Rightarrow> heap \<Rightarrow> (error + ref list) \<times> heap \<times> nat stream" where
  "conduct self g h =
     (case occupy (classroom self) h of
        (Inl e, h1) \<Rightarrow> (Inl e, h1, g)
      | (Inr _, h1) \<Rightarrow>
          (case grade_students (teacher self) (subject self) (registered_students self) [] g h1 of
             (Inl e, h2, g2) \<Rightarrow> (Inl e, h2, g2)
           | (Inr students_to_expel, h2, g2) \<Rightarrow>
               (case vacate (classroom self) h2 of
                  (Inl e, h3) \<Rightarrow> (Inl e, h3, g2)
                | (Inr _, h3) \<Rightarrow> (Inr students_to_expel, h3, g2))))"

section \<open>University\<close>

text \<open>
  \<^verbatim>\<open>str.lower\<close> follows the Unicode case mapping of the interpreter; it is a parameter
  \<open>lower\<close> of the methods that call it.
\<close>

definition get_curriculum :: "(string \<Rightarrow> string) \<Rightarrow> ref \<Rightarrow> string \<Rightarrow> heap \<Rightarrow> ref option" where
  "get_curriculum lower self nm h =
     find (\<lambda>c. lower (specialty_name (curriculum_at h c)) = lower nm)
       (curriculums (university_at h self))"

text \<open>
  \<^verbatim>\<open>University.enroll_student\<close>. The new Student object is allocated at \<open>next_ref\<close>;
  \<open>new_id\<close> is the string \<^verbatim>\<open>str(uuid4())\<close> that the dataclass draws for \<^verbatim>\<open>_id\<close>. The other
  fields take their defaults.
\<close>

definition enroll_student ::
  "(string \<Rightarrow> string) \<Rightarrow> ref \<Rightarrow> string \<Rightarrow> int \<Rightarrow> string \<Rightarrow> string \<Rightarrow> heap
     \<Rightarrow> (error + ref) \<times> heap" where
  "enroll_student lower self nm ag curriculum_name new_id h =
     (case get_curriculum lower self curriculum_name h of
        None \<Rightarrow> (Inl EnrollmentError, h)
      | Some found_curr \<Rightarrow>
          (let new_student = next_ref h;
               h1 = h\<lparr>student_at := (student_at h)
                        (new_student :=
                           \<lparr>full_name = nm, age = ag, person_id = new_id,
                            curriculum = Some found_curr, scholarship_amount = Finite 0,
                            record_book = [], borrowed_books = []\<rparr>),
                      next_ref := Suc (next_ref h)\<rparr>;
               h2 = h1\<lparr>university_at := (university_at h1)
                        (self := (university_at h1 self)
                           \<lparr>students := students (university_at h1 self) @ [new_student]\<rparr>)\<rparr>
           in (Inr new_student, h2)))"

text \<open>
  \<^verbatim>\<open>University.create_exam\<close>; \<open>now\<close> is the value of \<^verbatim>\<open>datetime.now()\<close>. An Exam has no
  method that writes its fields, so the exam list holds the Exam values. The roster of an
  Exam is the list the caller passed; an Exam value carries the roster as it is when the
  method at hand is called.
\<close>

definition create_exam ::
  "ref \<Rightarrow> string \<Rightarrow> ref \<Rightarrow> ref \<Rightarrow> ref list \<Rightarrow> datetime \<Rightarrow> heap \<Rightarrow> (error + Exam) \<times> heap" where
  "create_exam self subj tch room studs now h =
     (if subj \<notin> set (subjects (teacher_at h tch)) then (Inl EnrollmentError, h)
      else (let exam = \<lparr>subject = subj, date = now, teacher = tch, classroom = room,
                        registered_students = studs\<rparr>
            in (Inr exam,
                h\<lparr>university_at := (university_at h)
                     (self := (university_at h self)
                        \<lparr>exams := exams (university_at h self) @ [exam]\<rparr>)\<rparr>)))"

section \<open>Python floats and the methods that compute with them\<close>

text \<open>
  Rounding to nearest, ties to even, of a rational number into binary64: 53 significant
  bits, the least exponent of the unit in the last place \<open>-1074\<close> (subnormal numbers), and
  overflow to an infinity from \<open>2\<^sup>1\<^sup>0\<^sup>2\<^sup>4\<close> on. \<open>floor_log2 a\<close> is the exponent \<open>e\<close> with
  \<open>2\<^sup>e \<le> a < 2\<^sup>e\<^sup>+\<^sup>1\<close>, found from the bit lengths of numerator and denominator.
\<close>

definition round_half_even :: "rat \<Rightarrow> int" where
  "round_half_even x =
     (let f = \<lfloor>x\<rfloor>; d = x - of_int f in
      if d < 1 / 2 then f
      else if 1 / 2 < d then f + 1
      else if even f then f else f + 1)"

definition floor_log2 :: "rat \<Rightarrow> int" where
  "floor_log2 a =
     (let d = bitlen (fst (quotient_of a)) - bitlen (snd (quotient_of a)) in
      if 2 powi d \<le> a then d else d - 1)"

definition round_to_double :: "rat \<Rightarrow> pyfloat" where
  "round_to_double x =
     (if x = 0 then Finite 0
      else let q = max (floor_log2 \<bar>x\<bar> - 52) (- 1074);
               r = of_int (round_half_even (\<bar>x\<bar> / 2 powi q)) * 2 powi q in
           if 2 powi 1024 \<le> r then (if 0 < x then PosInf else NegInf)
           else Finite (if 0 < x then r else - r))"

text \<open>The float operators \<^verbatim>\<open>+\<close>, \<^verbatim>\<open>-\<close>, \<^verbatim>\<open>*\<close> and \<^verbatim>\<open>>=\<close>, with the IEEE 754 special cases.\<close>

fun float_neg :: "pyfloat \<Rightarrow> pyfloat" where
  "float_neg (Finite x) = Finite (- x)"
| "float_neg PosInf = NegInf"
| "float_neg NegInf = PosInf"
| "float_neg NaN = NaN"

fun float_add :: "pyfloat \<Rightarrow> pyfloat \<Rightarrow> pyfloat" where
  "float_add (Finite x) (Finite y) = round_to_double (x + y)"
| "float_add NaN b = NaN"
| "float_add a NaN = NaN"
| "float_add PosInf NegInf = NaN"
| "float_add NegInf PosInf = NaN"
| "float_add PosInf b = PosInf"
| "float_add NegInf b = NegInf"
| "float_add a PosInf = PosInf"
| "float_add a NegInf = NegInf"

definition float_sub :: "pyfloat \<Rightarrow> pyfloat \<Rightarrow> pyfloat" where
  "float_sub a b = float_add a (float_neg b)"

fun float_sign :: "pyfloat \<Rightarrow> int" where
  "float_sign (Finite x) = (if 0 < x then 1 else if x < 0 then - 1 else 0)"
| "float_sign PosInf = 1"
| "float_sign NegInf = - 1"
| "float_sign NaN = 0"

fun float_mul :: "pyfloat \<Rightarrow> pyfloat \<Rightarrow> pyfloat" where
  "float_mul (Finite x) (Finite y) = round_to_double (x * y)"
| "float_mul NaN b = NaN"
| "float_mul a NaN = NaN"
| "float_mul a b =
     (if float_sign a * float_sign b = 0 then NaN
      else if 0 < float_sign a * float_sign b then PosInf else NegInf)"

fun float_ge :: "pyfloat \<Rightarrow> pyfloat \<Rightarrow> bool" where
  "float_ge (Finite x) (Finite y) = (y \<le> x)"
| "float_ge NaN b = False"
| "float_ge a NaN = False"
| "float_ge PosInf b = True"
| "float_ge a NegInf = True"
| "float_ge a b = False"

text \<open>
  \<^verbatim>\<open>a / b\<close> on two ints: the quotient correctly rounded, \<^verbatim>\<open>ZeroDivisionError\<close> on a zero
  divisor, \<^verbatim>\<open>OverflowError\<close> when the quotient is too large for a float.
\<close>

definition int_truediv :: "int \<Rightarrow> int \<Rightarrow> error + pyfloat" where
  "int_truediv a b =
     (if b = 0 then Inl ZeroDivisionError
      else (case round_to_double (of_int a / of_int b) of
              Finite r \<Rightarrow> Inr (Finite r)
            | _ \<Rightarrow> Inl OverflowError))"

text \<open>
  \<^verbatim>\<open>round(x, 2)\<close> on a float: an infinity or a NaN is returned as it is; a finite value is
  rounded, ties to even, to the nearest multiple of \<open>1/100\<close> of its exact value, and the
  decimal result is converted to the nearest float. (The interpreter's check for a result
  too large to represent cannot fire with two digits: a float from \<open>2\<^sup>5\<^sup>3\<close> on is an integer
  and is returned unchanged.)
\<close>

fun py_round2 :: "pyfloat \<Rightarrow> pyfloat" where
  "py_round2 (Finite x) = round_to_double (of_int (round_half_even (x * 100)) / 100)"
| "py_round2 a = a"

text \<open>
  The property \<^verbatim>\<open>Student.average_score\<close>: \<^verbatim>\<open>sum\<close> over the dict's values and \<^verbatim>\<open>len\<close> are
  ints, \<^verbatim>\<open>/\<close> is the true division.
\<close>

definition average_score :: "Student \<Rightarrow> error + pyfloat" where
  "average_score self =
     (if record_book self = [] then Inr (Finite 0)
      else int_truediv (sum_list (map snd (record_book self)))
                       (int (length (record_book self))))"

definition assign_scholarship :: "ref \<Rightarrow> pyfloat \<Rightarrow> heap \<Rightarrow> heap" where
  "assign_scholarship self amount h =
     h\<lparr>student_at := (student_at h)
          (self := (student_at h self)\<lparr>scholarship_amount := amount\<rparr>)\<rparr>"

text \<open>
  The loop of \<^verbatim>\<open>ScholarshipDepartment.calculate_and_assign\<close>, with the counter \<^verbatim>\<open>count\<close>.
  The property \<^verbatim>\<open>average_score\<close> is read once for the test and once more for the bonus;
  the literal \<^verbatim>\<open>0.1\<close> is the float nearest to \<open>1/10\<close>, and the int \<^verbatim>\<open>1\<close> is converted to the
  float \<open>1.0\<close> for the sum.
\<close>

fun assign_each :: "ScholarshipDepartment \<Rightarrow> ref list \<Rightarrow> int \<Rightarrow> heap \<Rightarrow> (error + int) \<times> heap" where
  "assign_each self [] count h = (Inr count, h)"
| "assign_each self (student # rest) count h =
     (case average_score (student_at h student) of
        Inl e \<Rightarrow> (Inl e, h)
      | Inr score \<Rightarrow>
          if float_ge score (min_average_score self)
          then (case average_score (student_at h student) of
                  Inl e \<Rightarrow> (Inl e, h)
                | Inr score2 \<Rightarrow>
                    (let bonus = float_mul (float_sub score2 (min_average_score self))
                                   (round_to_double (1 / 10));
                         final_amount = py_round2
                           (float_mul (base_amount self) (float_add (Finite 1) bonus))
                     in assign_each self rest (count + 1)
                          (assign_scholarship student final_amount h)))
          else assign_each self rest count (assign_scholarship student (Finite 0) h))"

definition calculate_and_assign ::
  "ScholarshipDepartment \<Rightarrow> ref list \<Rightarrow> heap \<Rightarrow> (error + unit) \<times> heap" where
  "calculate_and_assign self studs h =
     (case assign_each self studs 0 h of
        (Inl e, h1) \<Rightarrow> (Inl e, h1)
      | (Inr count, h1) \<Rightarrow> (Inr (), h1))"

section \<open>Notions used to state the properties\<close>

text \<open>
  The condition under which \<^const>\<open>take_exam\<close> accepts a subject: the second test of the
  method, negated.
\<close>

definition may_take :: "string \<Rightarrow> heap \<Rightarrow> ref \<Rightarrow> bool" where
  "may_take subj h student =
     (case curriculum (student_at h student) of
        None \<Rightarrow> True
      | Some c \<Rightarrow> subj \<in> set (required_subjects (curriculum_at h c)))"

text \<open>The write \<^verbatim>\<open>self.record_book[subject_name] = grade\<close> for a pair of student and grade.\<close>

definition record_grade :: "string \<Rightarrow> heap \<Rightarrow> ref \<times> int \<Rightarrow> heap" where
  "record_grade subj h p =
     h\<lparr>student_at := (student_at h)
          (fst p := (student_at h (fst p))
             \<lparr>record_book := AList.update subj (snd p) (record_book (student_at h (fst p)))\<rparr>)\<rparr>"

text \<open>The first \<open>n\<close> results of \<^verbatim>\<open>randint(1, 10)\<close> from the generator state \<open>g\<close>.\<close>

definition drawn_grades :: "nat \<Rightarrow> nat stream \<Rightarrow> int list" where
  "drawn_grades n g = map (\<lambda>x. 1 + int (x mod 10)) (stake n g)"

definition nonneg_quantity :: "library_call \<Rightarrow> bool" where
  "nonneg_quantity c = (case c of AddBook b q \<Rightarrow> 0 \<le> q | _ \<Rightarrow> True)"

definition counts_nonneg :: "(Book \<times> int) list \<Rightarrow> bool" where
  "counts_nonneg stock = list_all (\<lambda>e. 0 \<le> snd e) stock"

text \<open>The arithmetic mean of the grades of a record book, as a rational number.\<close>

definition mean_grade :: "Student \<Rightarrow> rat" where
  "mean_grade s =
     of_int (sum_list (map snd (record_book s))) / of_int (int (length (record_book s)))"

text \<open>
  The claimed amount \<^verbatim>\<open>round(base_amount * (1 + (average_score - min_average_score) * 0.1), 2)\<close>
  for an average score, in float arithmetic.
\<close>

definition scholarship_formula :: "ScholarshipDepartment \<Rightarrow> pyfloat \<Rightarrow> pyfloat" where
  "scholarship_formula dept score =
     py_round2 (float_mul (base_amount dept)
       (float_add (Finite 1)
          (float_mul (float_sub score (min_average_score dept)) (round_to_double (1 / 10)))))"

definition expected_scholarship :: "ScholarshipDepartment \<Rightarrow> Student \<Rightarrow> pyfloat" where
  "expected_scholarship dept s =
     (case average_score s of
        Inr score \<Rightarrow>
          if float_ge score (min_average_score dept) then scholarship_formula dept score
          else Finite 0
      | Inl e \<Rightarrow> Finite 0)"

section \<open>Example objects, after tests/tests.py\<close>

text \<open>A case mapping for the examples: the ASCII letters, as \<^verbatim>\<open>str.lower\<close> maps them.\<close>

definition ascii_lower :: "string \<Rightarrow> string" where
  "ascii_lower s =
     map (\<lambda>c. if 65 \<le> (of_char c :: nat) \<and> (of_char c :: nat) \<le> 90
              then (case c of Char b0 b1 b2 b3 b4 b5 b6 b7 \<Rightarrow> Char b0 b1 b2 b3 b4 True b6 b7)
              else c) s"

definition book_1984 :: Book where
  "book_1984 = \<lparr>title = ''1984'', author = ''Orwell'', isbn = ''isbn-1''\<rparr>"

definition new_student :: "string \<Rightarrow> int \<Rightarrow> string \<Rightarrow> ref option \<Rightarrow> Student" where
  "new_student nm ag new_id c =
     \<lparr>full_name = nm, age = ag, person_id = new_id, curriculum = c,
      scholarship_amount = Finite 0, record_book = [], borrowed_books = []\<rparr>"

text \<open>
  Students S1 and S2 of curriculum IT (subject OOP), a reader without curriculum, a student
  S3 of curriculum Law; a teacher of OOP; a free classroom 101 and an occupied classroom 102;
  library 0 with two copies of one book, library 1 empty.
\<close>

definition test_heap :: heap where
  "test_heap =
     \<lparr>student_at = (\<lambda>r. new_student [] 0 [] None)
        (0 := new_student ''S1'' 20 ''id-0'' (Some 0),
         1 := new_student ''S2'' 20 ''id-1'' (Some 0),
         2 := new_student ''Reader'' 20 ''id-2'' None,
         3 := new_student ''S3'' 21 ''id-3'' (Some 1)),
      teacher_at = (\<lambda>r. \<lparr>full_name = ''T'', age = 40, person_id = ''id-t'',
                          degree = Some ASSOCIATE_PROFESSOR, subjects = [''OOP'']\<rparr>),
      classroom_at = (\<lambda>r. \<lparr>number = 101, capacity = 10, is_occupied = False\<rparr>)
        (1 := \<lparr>number = 102, capacity = 1, is_occupied = True\<rparr>),
      curriculum_at = (\<lambda>r. \<lparr>specialty_name = ''IT'', required_subjects = [''OOP'']\<rparr>)
        (1 := \<lparr>specialty_name = ''Law'', required_subjects = [''History'']\<rparr>),
      library_at = (\<lambda>r. \<lparr>inventory = []\<rparr>)(0 := \<lparr>inventory = [(book_1984, 2)]\<rparr>),
      university_at = (\<lambda>r. \<lparr>name = ''ExamUni'', library = 0,
                             accounting = \<lparr>min_average_score = Finite 6, base_amount = Finite 100\<rparr>,
                             students = [0, 1, 3], teachers = [0], classrooms = [0, 1],
                             curriculums = [0, 1], exams = []\<rparr>),
      next_ref = 4\<rparr>"

definition oop_exam :: "ref \<Rightarrow> ref list \<Rightarrow> Exam" where
  "oop_exam room roster =
     \<lparr>subject = ''OOP'', date = 0, teacher = 0, classroom = room, registered_students = roster\<rparr>"

text \<open>The department and the two students of the scholarship test.\<close>

definition test_dept :: ScholarshipDepartment where
  "test_dept = \<lparr>min_average_score = Finite 6, base_amount = Finite 100\<rparr>"

definition scholarship_heap :: heap where
  "scholarship_heap =
     test_heap\<lparr>student_at := (student_at test_heap)
       (0 := (new_student ''Good'' 20 ''id-0'' None)\<lparr>record_book := [(''A'', 8), (''B'', 8)]\<rparr>,
        2 := (new_student ''Bad'' 20 ''id-2'' None)\<lparr>record_book := [(''A'', 4), (''B'', 4)]\<rparr>)\<rparr>"

section \<open>Facts about the example objects\<close>

lemma test_heap_simps:
  "student_at test_heap 0 = new_student ''S1'' 20 ''id-0'' (Some 0)"
  "student_at test_heap (Suc 0) = new_student ''S2'' 20 ''id-1'' (Some 0)"
  "student_at test_heap 2 = new_student ''Reader'' 20 ''id-2'' None"
  "student_at test_heap 3 = new_student ''S3'' 21 ''id-3'' (Some 1)"
  "subjects (teacher_at test_heap 0) = [''OOP'']"
  "classroom_at test_heap 0 = \<lparr>number = 101, capacity = 10, is_occupied = False\<rparr>"
  "classroom_at test_heap (Suc 0) = \<lparr>number = 102, capacity = 1, is_occupied = True\<rparr>"
  "curriculum_at test_heap 0 = \<lparr>specialty_name = ''IT'', required_subjects = [''OOP'']\<rparr>"
  "curriculum_at test_heap (Suc 0) = \<lparr>specialty_name = ''Law'', required_subjects = [''History'']\<rparr>"
  "library_at test_heap 0 = \<lparr>inventory = [(book_1984, 2)]\<rparr>"
  "library_at test_heap (Suc 0) = \<lparr>inventory = []\<rparr>"
  "students (university_at test_heap 0) = [0, 1, 3]"
  "curriculums (university_at test_heap 0) = [0, 1]"
  "exams (university_at test_heap 0) = []"
  "next_ref test_heap = 4"
  by (simp_all add: test_heap_def)

lemma new_student_simps:
  "curriculum (new_student nm ag i c) = c"
  "record_book (new_student nm ag i c) = []"
  "borrowed_books (new_student nm ag i c) = []"
  by (simp_all add: new_student_def)

section \<open>Student.take_exam\<close>

lemma length_alist_update:
  "length (AList.update k v al) = (if k \<in> fst ` set al then length al else Suc (length al))"
  by (induction al) auto

text \<open>
  Claim C3. \<^verbatim>\<open>take_exam(subject, grade)\<close> raises \<^verbatim>\<open>ValueError\<close> (the validation error of
  the method) when the grade is outside \<open>[0, 10]\<close>, and leaves the state as it was; with a
  grade in range, a student who has a curriculum that does not require the subject gets
  \<^verbatim>\<open>EnrollmentError\<close>, again with the state as it was; otherwise the call succeeds and the
  record book maps the subject to the new grade and every other subject to what it mapped
  before: a subject already present keeps a single entry (the length is unchanged, the keys
  stay distinct), a new subject adds one entry.
\<close>

theorem take_exam_validates_then_records:
  "(grade < 0 \<or> 10 < grade \<longrightarrow> take_exam self s grade h = (Inl ValueError, h)) \<and>
   (0 \<le> grade \<and> grade \<le> 10 \<and>
      (\<exists>c. curriculum (student_at h self) = Some c \<and> s \<notin> set (required_subjects (curriculum_at h c)))
      \<longrightarrow> take_exam self s grade h = (Inl EnrollmentError, h)) \<and>
   (0 \<le> grade \<and> grade \<le> 10 \<and>
      (\<forall>c. curriculum (student_at h self) = Some c \<longrightarrow> s \<in> set (required_subjects (curriculum_at h c)))
      \<longrightarrow> (\<exists>h'. take_exam self s grade h = (Inr (), h') \<and>
            map_of (record_book (student_at h' self)) = (map_of (record_book (student_at h self)))(s \<mapsto> grade) \<and>
            (distinct (map fst (record_book (student_at h self))) \<longrightarrow> distinct (map fst (record_book (student_at h' self)))) \<and>
            length (record_book (student_at h' self)) =
              (if s \<in> fst ` set (record_book (student_at h self)) then length (record_book (student_at h self))
               else length (record_book (student_at h self)) + 1)))"
  by (auto simp: take_exam_def update_conv' distinct_update length_alist_update split: option.splits)

theorem take_exam_validates_then_records_witness:
  "take_exam 0 ''OOP'' 11 test_heap = (Inl ValueError, test_heap) \<and>
   take_exam 0 ''History'' 5 test_heap = (Inl EnrollmentError, test_heap) \<and>
   (\<exists>h'. take_exam 0 ''OOP'' 9 test_heap = (Inr (), h') \<and>
         map_of (record_book (student_at h' 0)) ''OOP'' = Some 9 \<and>
         length (record_book (student_at h' 0)) = 1)"
  using take_exam_validates_then_records [of 11 0 "''OOP''" test_heap]
        take_exam_validates_then_records [of 5 0 "''History''" test_heap]
        take_exam_validates_then_records [of 9 0 "''OOP''" test_heap]
  by (auto simp: test_heap_simps new_student_simps)

section \<open>Library.lend_book\<close>

lemma find_holds: "find P xs = Some x \<Longrightarrow> P x"
  by (induction xs) (auto split: if_splits)

lemma find_entry_key:
  "find (\<lambda>e. P (fst e)) al = Some (k, v) \<Longrightarrow> find P (map fst al) = Some k \<and> map_of al k = Some v"
  by (induction al) (auto split: if_splits dest: find_holds)

lemma find_key_None:
  "(find P (map fst al) = None) = (\<forall>k \<in> fst ` set al. \<not> P k)"
  by (induction al) auto

text \<open>
  Claim C2. \<^verbatim>\<open>lend_book(student, title)\<close>: when no book of the inventory has the title,
  or when the first entry with the title has a count \<open>\<le> 0\<close>, the call raises
  \<^verbatim>\<open>ResourceError\<close>; when the student already holds the matched book it raises
  \<^verbatim>\<open>ResourceError\<close> too. In the three cases the whole state, the inventory with it, is as
  before the call. Otherwise the call succeeds, the matched book is appended to the student's
  borrowed list, the count of the matched book is one less and no other count changes.
\<close>

theorem lend_book_outcomes:
  "((\<forall>b \<in> fst ` set (inventory (library_at h lib)). title b \<noteq> book_title)
      \<longrightarrow> lend_book lib student book_title h = (Inl ResourceError, h)) \<and>
   (find (\<lambda>e. title (fst e) = book_title) (inventory (library_at h lib)) = Some (b, c) \<and> c \<le> 0
      \<longrightarrow> lend_book lib student book_title h = (Inl ResourceError, h)) \<and>
   (find (\<lambda>e. title (fst e) = book_title) (inventory (library_at h lib)) = Some (b, c) \<and> 0 < c \<and>
    b \<in> set (borrowed_books (student_at h student))
      \<longrightarrow> lend_book lib student book_title h = (Inl ResourceError, h)) \<and>
   (find (\<lambda>e. title (fst e) = book_title) (inventory (library_at h lib)) = Some (b, c) \<and> 0 < c \<and>
    b \<notin> set (borrowed_books (student_at h student))
      \<longrightarrow> (\<exists>h'. lend_book lib student book_title h = (Inr (), h') \<and>
            borrowed_books (student_at h' student) = borrowed_books (student_at h student) @ [b] \<and>
            map_of (inventory (library_at h' lib)) = (map_of (inventory (library_at h lib)))(b \<mapsto> c - 1) \<and>
            map fst (inventory (library_at h' lib)) = map fst (inventory (library_at h lib))))"
proof (intro conjI impI)
  assume "\<forall>b \<in> fst ` set (inventory (library_at h lib)). title b \<noteq> book_title"
  then have "find_by_title (inventory (library_at h lib)) book_title = None"
    by (simp add: find_by_title_def find_key_None)
  then show "lend_book lib student book_title h = (Inl ResourceError, h)"
    by (simp add: lend_book_def)
next
  assume "find (\<lambda>e. title (fst e) = book_title) (inventory (library_at h lib)) = Some (b, c) \<and> c \<le> 0"
  then show "lend_book lib student book_title h = (Inl ResourceError, h)"
    using find_entry_key [of "\<lambda>k. title k = book_title" "inventory (library_at h lib)" b c]
    by (simp add: lend_book_def find_by_title_def dict_getitem_def)
next
  assume "find (\<lambda>e. title (fst e) = book_title) (inventory (library_at h lib)) = Some (b, c) \<and> 0 < c \<and>
    b \<in> set (borrowed_books (student_at h student))"
  then show "lend_book lib student book_title h = (Inl ResourceError, h)"
    using find_entry_key [of "\<lambda>k. title k = book_title" "inventory (library_at h lib)" b c]
    by (simp add: lend_book_def find_by_title_def dict_getitem_def borrow_book_def)
next
  assume a: "find (\<lambda>e. title (fst e) = book_title) (inventory (library_at h lib)) = Some (b, c) \<and> 0 < c \<and>
    b \<notin> set (borrowed_books (student_at h student))"
  have k: "b \<in> fst ` set (inventory (library_at h lib))"
    using a find_entry_key [of "\<lambda>k. title k = book_title" "inventory (library_at h lib)" b c]
    by (metis domI dom_map_of_conv_image_fst)
  show "\<exists>h'. lend_book lib student book_title h = (Inr (), h') \<and>
            borrowed_books (student_at h' student) = borrowed_books (student_at h student) @ [b] \<and>
            map_of (inventory (library_at h' lib)) = (map_of (inventory (library_at h lib)))(b \<mapsto> c - 1) \<and>
            map fst (inventory (library_at h' lib)) = map fst (inventory (library_at h lib))"
    using a k find_entry_key [of "\<lambda>k. title k = book_title" "inventory (library_at h lib)" b c]
    by (simp add: lend_book_def find_by_title_def dict_getitem_def borrow_book_def
          set_inventory_def update_conv' update_keys)
qed

theorem lend_book_outcomes_witness:
  "lend_book 0 2 ''Unknown'' test_heap = (Inl ResourceError, test_heap) \<and>
   lend_book 0 2 ''1984'' (set_inventory 0 [(book_1984, 0)] test_heap)
     = (Inl ResourceError, set_inventory 0 [(book_1984, 0)] test_heap) \<and>
   lend_book 0 2 ''1984'' (snd (lend_book 0 2 ''1984'' test_heap))
     = (Inl ResourceError, snd (lend_book 0 2 ''1984'' test_heap)) \<and>
   (\<exists>h'. lend_book 0 2 ''1984'' test_heap = (Inr (), h') \<and>
         borrowed_books (student_at h' 2) = [book_1984] \<and>
         map_of (inventory (library_at h' 0)) book_1984 = Some 1)"
proof -
  have h1: "snd (lend_book 0 2 ''1984'' test_heap) =
     test_heap\<lparr>student_at := (student_at test_heap)
                 (2 := (student_at test_heap 2)\<lparr>borrowed_books := [book_1984]\<rparr>),
               library_at := (library_at test_heap)(0 := \<lparr>inventory = [(book_1984, 1)]\<rparr>)\<rparr>"
    by (simp add: lend_book_def find_by_title_def dict_getitem_def borrow_book_def
          set_inventory_def test_heap_def new_student_def book_1984_def)
  show ?thesis
    using lend_book_outcomes [of test_heap 0 "''Unknown''" 2 book_1984 2]
          lend_book_outcomes [of "set_inventory 0 [(book_1984, 0)] test_heap" 0 "''1984''" 2 book_1984 0]
          lend_book_outcomes [of "snd (lend_book 0 2 ''1984'' test_heap)" 0 "''1984''" 2 book_1984 1]
          lend_book_outcomes [of test_heap 0 "''1984''" 2 book_1984 2]
    unfolding h1
    by (auto simp: test_heap_simps new_student_simps book_1984_def set_inventory_def)
qed

section \<open>The inventory counts of a Library\<close>

lemma update_nonneg:
  "counts_nonneg al \<Longrightarrow> 0 \<le> v \<Longrightarrow> counts_nonneg (AList.update k v al)"
  unfolding counts_nonneg_def by (induction al) auto

lemma getitem_nonneg:
  "counts_nonneg al \<Longrightarrow> dict_getitem al k = Inr v \<Longrightarrow> 0 \<le> v"
  unfolding counts_nonneg_def dict_getitem_def
  by (induction al) (auto split: if_splits option.splits)

lemma inventory_set_inventory [simp]:
  "inventory (library_at (set_inventory lib stock h) lib) = stock"
  by (simp add: set_inventory_def)

lemma add_book_nonneg:
  assumes "counts_nonneg (inventory (library_at h lib))" and "0 \<le> q"
  shows "counts_nonneg (inventory (library_at (snd (add_book lib book q h)) lib))"
proof (cases "dict_getitem (inventory (library_at h lib)) book")
  case (Inl e)
  with assms show ?thesis
    by (simp add: add_book_def Let_def update_nonneg)
next
  case (Inr c)
  with assms have "0 \<le> c + q"
    using getitem_nonneg by fastforce
  with assms Inr show ?thesis
    by (simp add: add_book_def Let_def update_nonneg)
qed

lemma borrow_book_library [simp]:
  "library_at (snd (borrow_book s b h)) = library_at h"
  by (simp add: borrow_book_def)

lemma return_book_library [simp]:
  "library_at (snd (return_book s b h)) = library_at h"
  by (simp add: return_book_def)

lemma lend_book_nonneg:
  assumes "counts_nonneg (inventory (library_at h lib))"
  shows "counts_nonneg (inventory (library_at (snd (lend_book lib s t h)) lib))"
proof -
  have upd: "\<And>k c. dict_getitem (inventory (library_at h lib)) k = Inr c \<Longrightarrow> 0 < c \<Longrightarrow>
               counts_nonneg (AList.update k (c - 1) (inventory (library_at h lib)))"
    using assms by (simp add: update_nonneg)
  show ?thesis
    using assms upd
    by (auto simp: lend_book_def borrow_book_def
          split: option.splits sum.splits prod.splits if_splits)
qed

lemma accept_return_nonneg:
  assumes "counts_nonneg (inventory (library_at h lib))"
  shows "counts_nonneg (inventory (library_at (snd (accept_return lib s t h)) lib))"
proof -
  have upd: "\<And>k c. dict_getitem (inventory (library_at h lib)) k = Inr c \<Longrightarrow>
               counts_nonneg (AList.update k (c + 1) (inventory (library_at h lib)))"
    using assms getitem_nonneg by (fastforce intro: update_nonneg)
  show ?thesis
    using assms upd
    by (auto simp: accept_return_def return_book_def
          split: option.splits sum.splits prod.splits if_splits)
qed

lemma library_step_nonneg:
  "counts_nonneg (inventory (library_at h lib)) \<Longrightarrow> nonneg_quantity c \<Longrightarrow>
   counts_nonneg (inventory (library_at (library_step lib c h) lib))"
  by (cases c) (simp_all add: nonneg_quantity_def add_book_nonneg lend_book_nonneg accept_return_nonneg)

lemma library_run_nonneg:
  "counts_nonneg (inventory (library_at h lib)) \<Longrightarrow> list_all nonneg_quantity cs \<Longrightarrow>
   counts_nonneg (inventory (library_at (library_run lib cs h) lib))"
  by (induction cs arbitrary: h) (simp_all add: library_step_nonneg)

text \<open>
  \<^verbatim>\<open>add_book\<close> stores the quantity it is given: on the empty inventory of library 1,
  \<^verbatim>\<open>add_book(book, -1)\<close> leaves the count \<open>-1\<close>.
\<close>

theorem library_negative_quantity_counterexample:
  "inventory (library_at test_heap 1) = [] \<and>
   (book_1984, - 1) \<in> set (inventory (library_at (library_run 1 [AddBook book_1984 (- 1)] test_heap) 1))"
  by (simp add: add_book_def set_inventory_def test_heap_simps)

text \<open>
  Claim C6, amended. Starting from an empty inventory, after any sequence of
  \<^verbatim>\<open>add_book\<close>, \<^verbatim>\<open>lend_book\<close> and \<^verbatim>\<open>accept_return\<close> calls in which every quantity given to
  \<^verbatim>\<open>add_book\<close> is \<open>\<ge> 0\<close>, every count of the inventory is \<open>\<ge> 0\<close>.
\<close>

theorem library_counts_nonneg:
  "inventory (library_at h lib) = [] \<Longrightarrow> list_all nonneg_quantity cs \<Longrightarrow>
   (b, n) \<in> set (inventory (library_at (library_run lib cs h) lib)) \<Longrightarrow> 0 \<le> n"
  using library_run_nonneg [of h lib cs]
  by (auto simp: counts_nonneg_def list_all_iff)

theorem library_counts_nonneg_witness:
  "inventory (library_at test_heap 1) = [] \<and>
   list_all nonneg_quantity
     [AddBook book_1984 2, LendBook 2 ''1984'', LendBook 3 ''1984'', LendBook 0 ''1984'',
      AcceptReturn 2 ''1984''] \<and>
   (book_1984, 1) \<in> set (inventory (library_at
      (library_run 1
         [AddBook book_1984 2, LendBook 2 ''1984'', LendBook 3 ''1984'', LendBook 0 ''1984'',
          AcceptReturn 2 ''1984''] test_heap) 1)) \<and>
   (0::int) \<le> 1"
proof -
  have e: "inventory (library_at test_heap 1) = []"
    by (simp add: test_heap_simps)
  have q: "list_all nonneg_quantity
     [AddBook book_1984 2, LendBook 2 ''1984'', LendBook 3 ''1984'', LendBook 0 ''1984'',
      AcceptReturn 2 ''1984'']"
    by (simp add: nonneg_quantity_def)
  have m: "(book_1984, 1) \<in> set (inventory (library_at
      (library_run 1
         [AddBook book_1984 2, LendBook 2 ''1984'', LendBook 3 ''1984'', LendBook 0 ''1984'',
          AcceptReturn 2 ''1984''] test_heap) 1))"
    by (simp add: add_book_def lend_book_def accept_return_def borrow_book_def return_book_def
          find_by_title_def dict_getitem_def set_inventory_def test_heap_simps new_student_simps
          book_1984_def)
  from library_counts_nonneg [OF e q m] e q m show ?thesis by simp
qed

section \<open>Exam.conduct\<close>

lemma randint_1_10: "randint 1 10 g = (Inr (1 + int (shd g mod 10)), stl g)"
  by (simp add: randint_def)

lemma take_exam_ok:
  "0 \<le> gr \<Longrightarrow> gr \<le> 10 \<Longrightarrow> may_take subj h r \<Longrightarrow>
   take_exam r subj gr h = (Inr (), record_grade subj h (r, gr))"
  by (auto simp: take_exam_def may_take_def record_grade_def split: option.splits)

lemma take_exam_not_eligible:
  "0 \<le> gr \<Longrightarrow> gr \<le> 10 \<Longrightarrow> \<not> may_take subj h r \<Longrightarrow>
   take_exam r subj gr h = (Inl EnrollmentError, h)"
  by (auto simp: take_exam_def may_take_def split: option.splits)

lemma may_take_record_grade [simp]:
  "may_take subj (record_grade subj' h p) = may_take subj h"
  by (rule ext) (simp add: may_take_def record_grade_def split: option.splits)

lemma grade_students_ok:
  "list_all (may_take subj h) roster \<Longrightarrow>
   grade_students tch subj roster acc g h =
     (Inr (acc @ map fst (filter (\<lambda>p. snd p < 4) (zip roster (drawn_grades (length roster) g)))),
      foldl (record_grade subj) h (zip roster (drawn_grades (length roster) g)),
      sdrop (length roster) g)"
proof (induction roster arbitrary: acc g h)
  case Nil
  then show ?case by (simp add: drawn_grades_def)
next
  case (Cons r roster)
  let ?gr = "1 + int (shd g mod 10)"
  have te: "take_exam r subj ?gr h = (Inr (), record_grade subj h (r, ?gr))"
    using Cons.prems by (intro take_exam_ok) auto
  have el: "list_all (may_take subj (record_grade subj h (r, ?gr))) roster"
    using Cons.prems by simp
  show ?case
    using Cons.IH [OF el, of "if ?gr < 4 then acc @ [r] else acc" "stl g"] te
    by (simp add: randint_1_10 evaluate_student_def drawn_grades_def)
qed

lemma grade_students_returns:
  "grade_students tch subj roster acc g h = (Inr xs, h', g') \<Longrightarrow> list_all (may_take subj h) roster"
proof (induction roster arbitrary: acc g h)
  case Nil
  then show ?case by simp
next
  case (Cons r roster)
  let ?gr = "1 + int (shd g mod 10)"
  show ?case
  proof (cases "may_take subj h r")
    case True
    then have te: "take_exam r subj ?gr h = (Inr (), record_grade subj h (r, ?gr))"
      by (intro take_exam_ok) auto
    from Cons.prems have "grade_students tch subj roster (if ?gr < 4 then acc @ [r] else acc) (stl g)
         (record_grade subj h (r, ?gr)) = (Inr xs, h', g')"
      by (simp add: randint_1_10 evaluate_student_def te)
    from Cons.IH [OF this] True show ?thesis by simp
  next
    case False
    then have "take_exam r subj ?gr h = (Inl EnrollmentError, h)"
      by (intro take_exam_not_eligible) auto
    with Cons.prems show ?thesis
      by (simp add: randint_1_10 evaluate_student_def)
  qed
qed

lemma grade_students_frame:
  "grade_students tch subj roster acc g h = (res, h', g') \<Longrightarrow>
   classroom_at h' = classroom_at h \<and> university_at h' = university_at h \<and>
   curriculum_at h' = curriculum_at h \<and> teacher_at h' = teacher_at h \<and>
   library_at h' = library_at h \<and> next_ref h' = next_ref h"
proof (induction roster arbitrary: acc g h)
  case Nil
  then show ?case by auto
next
  case (Cons r roster)
  let ?gr = "1 + int (shd g mod 10)"
  show ?case
  proof (cases "may_take subj h r")
    case True
    then have te: "take_exam r subj ?gr h = (Inr (), record_grade subj h (r, ?gr))"
      by (intro take_exam_ok) auto
    from Cons.prems have "grade_students tch subj roster (if ?gr < 4 then acc @ [r] else acc) (stl g)
         (record_grade subj h (r, ?gr)) = (res, h', g')"
      by (simp add: randint_1_10 evaluate_student_def te)
    from Cons.IH [OF this] show ?thesis by (simp add: record_grade_def)
  next
    case False
    then have "take_exam r subj ?gr h = (Inl EnrollmentError, h)"
      by (intro take_exam_not_eligible) auto
    with Cons.prems show ?thesis
      by (auto simp: randint_1_10 evaluate_student_def)
  qed
qed

lemma foldl_record_grade_last:
  "i < length ps \<Longrightarrow> \<forall>j. i < j \<and> j < length ps \<longrightarrow> fst (ps ! j) \<noteq> fst (ps ! i) \<Longrightarrow>
   map_of (record_book (student_at (foldl (record_grade subj) h ps) (fst (ps ! i)))) subj
     = Some (snd (ps ! i))"
proof (induction ps rule: rev_induct)
  case Nil
  then show ?case by simp
next
  case (snoc p ps)
  show ?case
  proof (cases "i = length ps")
    case True
    then show ?thesis by (simp add: record_grade_def update_conv')
  next
    case False
    with snoc.prems have i: "i < length ps" by simp
    have later: "\<forall>j. i < j \<and> j < length ps \<longrightarrow> fst (ps ! j) \<noteq> fst (ps ! i)"
    proof (intro allI impI)
      fix j assume j: "i < j \<and> j < length ps"
      then have "fst ((ps @ [p]) ! j) \<noteq> fst ((ps @ [p]) ! i)"
        using snoc.prems(2) by simp
      with j i show "fst (ps ! j) \<noteq> fst (ps ! i)" by (simp add: nth_append)
    qed
    have "i < length ps \<and> length ps < length (ps @ [p])"
      using i by simp
    then have "fst ((ps @ [p]) ! length ps) \<noteq> fst ((ps @ [p]) ! i)"
      using snoc.prems(2) by blast
    then have ne: "fst p \<noteq> fst (ps ! i)" using i by (simp add: nth_append)
    show ?thesis
      using snoc.IH [OF i later] ne i by (simp add: nth_append record_grade_def)
  qed
qed

lemma conduct_frame:
  "conduct e g h = (res, h', g') \<Longrightarrow>
   university_at h' = university_at h \<and> curriculum_at h' = curriculum_at h \<and>
   teacher_at h' = teacher_at h \<and> library_at h' = library_at h \<and> next_ref h' = next_ref h"
  by (auto simp: conduct_def occupy_def vacate_def
        split: if_splits prod.splits sum.splits dest!: grade_students_frame)

lemma may_take_occupied [simp]:
  "may_take subj (h\<lparr>classroom_at := f\<rparr>) = may_take subj h"
  by (rule ext) (simp add: may_take_def split: option.splits)

lemma record_grade_classroom:
  "record_grade subj (h\<lparr>classroom_at := f\<rparr>) p = (record_grade subj h p)\<lparr>classroom_at := f\<rparr>"
  by (simp add: record_grade_def)

lemma student_at_foldl_classroom:
  "student_at (foldl (record_grade subj) (h\<lparr>classroom_at := f\<rparr>) ps)
     = student_at (foldl (record_grade subj) h ps)"
  by (induction ps arbitrary: h) (simp_all add: record_grade_classroom)

text \<open>
  Claim C5. When the classroom of the exam is already occupied, \<^verbatim>\<open>conduct\<close> raises
  \<^verbatim>\<open>StateError\<close> at once: the state is the one before the call (no record book is written,
  the classroom stays occupied) and the generator has not been asked for a grade.
\<close>

theorem conduct_occupied_classroom:
  "is_occupied (classroom_at h (classroom e)) \<Longrightarrow> conduct e g h = (Inl StateError, h, g)"
  by (simp add: conduct_def occupy_def)

theorem conduct_occupied_classroom_witness:
  "is_occupied (classroom_at test_heap (classroom (oop_exam 1 [0, 1]))) \<and>
   conduct (oop_exam 1 [0, 1]) (sconst 1) test_heap = (Inl StateError, test_heap, sconst 1)"
  using conduct_occupied_classroom [of test_heap "oop_exam 1 [0, 1]" "sconst 1"]
  by (simp add: test_heap_simps oop_exam_def)

text \<open>
  Claim C4. \<^verbatim>\<open>conduct\<close> returns normally exactly when the classroom is free and every
  registered student may take the subject. It then returns the registered students whose
  generated grade is \<open>< 4\<close>, in roster order; the grades, each in \<open>[1, 10]\<close>, have been written
  to the record books in roster order, so that the record book of a student holds, for the
  exam subject, the grade generated at the student's last place in the roster; the classroom
  is free again. On every path, the University objects (their student lists among the rest)
  are what they were.
\<close>

theorem conduct_returns_failed:
  "(\<not> is_occupied (classroom_at h (classroom e)) \<and>
    list_all (may_take (subject e) h) (registered_students e)
      \<longrightarrow> (\<exists>h'. conduct e g h =
               (Inr (map fst (filter (\<lambda>p. snd p < 4)
                       (zip (registered_students e)
                            (drawn_grades (length (registered_students e)) g)))),
                h', sdrop (length (registered_students e)) g) \<and>
             student_at h' =
               student_at (foldl (record_grade (subject e)) h
                 (zip (registered_students e)
                      (drawn_grades (length (registered_students e)) g))) \<and>
             (\<forall>i < length (registered_students e).
                (\<forall>j. i < j \<and> j < length (registered_students e)
                      \<longrightarrow> registered_students e ! j \<noteq> registered_students e ! i)
                \<longrightarrow> map_of (record_book (student_at h' (registered_students e ! i))) (subject e)
                      = Some (drawn_grades (length (registered_students e)) g ! i)) \<and>
             \<not> is_occupied (classroom_at h' (classroom e)))) \<and>
   (\<forall>failed h' g'. conduct e g h = (Inr failed, h', g')
      \<longrightarrow> \<not> is_occupied (classroom_at h (classroom e)) \<and>
          list_all (may_take (subject e) h) (registered_students e)) \<and>
   university_at (fst (snd (conduct e g h))) = university_at h \<and>
   (\<forall>gr \<in> set (drawn_grades (length (registered_students e)) g). 1 \<le> gr \<and> gr \<le> 10)"
proof (intro conjI impI allI)
  let ?roster = "registered_students e"
  let ?n = "length ?roster"
  let ?ps = "zip ?roster (drawn_grades ?n g)"
  let ?h1 = "h\<lparr>classroom_at := (classroom_at h)
                 (classroom e := (classroom_at h (classroom e))\<lparr>is_occupied := True\<rparr>)\<rparr>"
  assume a: "\<not> is_occupied (classroom_at h (classroom e)) \<and> list_all (may_take (subject e) h) ?roster"
  then have occ: "occupy (classroom e) h = (Inr (), ?h1)"
    by (simp add: occupy_def)
  have el: "list_all (may_take (subject e) ?h1) ?roster"
    using a by simp
  have gs: "grade_students (teacher e) (subject e) ?roster [] g ?h1 =
      (Inr (map fst (filter (\<lambda>p. snd p < 4) ?ps)), foldl (record_grade (subject e)) ?h1 ?ps, sdrop ?n g)"
    using grade_students_ok [OF el, of "teacher e" "[]" g] by simp
  let ?h2 = "foldl (record_grade (subject e)) ?h1 ?ps"
  have cl: "classroom_at ?h2 = classroom_at ?h1"
    using grade_students_frame [OF gs] by simp
  let ?h3 = "?h2\<lparr>classroom_at := (classroom_at ?h2)
                 (classroom e := (classroom_at ?h2 (classroom e))\<lparr>is_occupied := False\<rparr>)\<rparr>"
  have vac: "vacate (classroom e) ?h2 = (Inr (), ?h3)"
    by (simp add: vacate_def cl)
  have res: "conduct e g h = (Inr (map fst (filter (\<lambda>p. snd p < 4) ?ps)), ?h3, sdrop ?n g)"
    by (simp add: conduct_def occ gs vac)
  have st: "student_at ?h3 = student_at (foldl (record_grade (subject e)) h ?ps)"
    by (simp add: student_at_foldl_classroom)
  have len: "length ?ps = ?n"
    by (simp add: drawn_grades_def)
  have rec: "\<forall>i < ?n. (\<forall>j. i < j \<and> j < ?n \<longrightarrow> ?roster ! j \<noteq> ?roster ! i)
                \<longrightarrow> map_of (record_book (student_at ?h3 (?roster ! i))) (subject e)
                      = Some (drawn_grades ?n g ! i)"
  proof (intro allI impI)
    fix i assume i: "i < ?n" and later: "\<forall>j. i < j \<and> j < ?n \<longrightarrow> ?roster ! j \<noteq> ?roster ! i"
    have i': "i < length ?ps" using i len by simp
    have l': "\<forall>j. i < j \<and> j < length ?ps \<longrightarrow> fst (?ps ! j) \<noteq> fst (?ps ! i)"
      using later i len by (simp add: drawn_grades_def)
    have "map_of (record_book (student_at (foldl (record_grade (subject e)) h ?ps) (fst (?ps ! i))))
            (subject e) = Some (snd (?ps ! i))"
      by (rule foldl_record_grade_last [OF i' l'])
    then show "map_of (record_book (student_at ?h3 (?roster ! i))) (subject e)
                      = Some (drawn_grades ?n g ! i)"
      using i st by (simp add: drawn_grades_def)
  qed
  show "\<exists>h'. conduct e g h = (Inr (map fst (filter (\<lambda>p. snd p < 4) ?ps)), h', sdrop ?n g) \<and>
             student_at h' = student_at (foldl (record_grade (subject e)) h ?ps) \<and>
             (\<forall>i < ?n. (\<forall>j. i < j \<and> j < ?n \<longrightarrow> ?roster ! j \<noteq> ?roster ! i)
                \<longrightarrow> map_of (record_book (student_at h' (?roster ! i))) (subject e)
                      = Some (drawn_grades ?n g ! i)) \<and>
             \<not> is_occupied (classroom_at h' (classroom e))"
    using res st rec by (intro exI [of _ ?h3]) simp
next
  fix failed h' g'
  assume r: "conduct e g h = (Inr failed, h', g')"
  then show "\<not> is_occupied (classroom_at h (classroom e))"
    by (auto simp: conduct_def occupy_def split: if_splits)
next
  fix failed h' g'
  assume r: "conduct e g h = (Inr failed, h', g')"
  then have "\<exists>xs h2 g2. grade_students (teacher e) (subject e) (registered_students e) [] g
       (h\<lparr>classroom_at := (classroom_at h)
                 (classroom e := (classroom_at h (classroom e))\<lparr>is_occupied := True\<rparr>)\<rparr>)
       = (Inr xs, h2, g2)"
    by (auto simp: conduct_def occupy_def split: if_splits prod.splits sum.splits)
  then show "list_all (may_take (subject e) h) (registered_students e)"
    by (auto dest!: grade_students_returns)
next
  show "university_at (fst (snd (conduct e g h))) = university_at h"
    using conduct_frame [of e g h] by (metis prod.collapse)
next
  show "\<forall>gr \<in> set (drawn_grades (length (registered_students e)) g). 1 \<le> gr \<and> gr \<le> 10"
    by (auto simp: drawn_grades_def)
qed

theorem conduct_returns_failed_witness:
  "\<not> is_occupied (classroom_at test_heap (classroom (oop_exam 0 [0, 2]))) \<and>
   list_all (may_take (subject (oop_exam 0 [0, 2])) test_heap) (registered_students (oop_exam 0 [0, 2])) \<and>
   drawn_grades 2 (1 ## 4 ## sconst 0) = [2, 5] \<and>
   (\<exists>h'. conduct (oop_exam 0 [0, 2]) (1 ## 4 ## sconst 0) test_heap = (Inr [0], h', sconst 0) \<and>
         map_of (record_book (student_at h' 0)) ''OOP'' = Some 2 \<and>
         map_of (record_book (student_at h' 2)) ''OOP'' = Some 5 \<and>
         \<not> is_occupied (classroom_at h' 0) \<and>
         students (university_at h' 0) = [0, 1, 3])"
proof -
  have dg: "drawn_grades 2 (1 ## 4 ## sconst 0) = [2, 5]"
    by (simp add: drawn_grades_def numeral_2_eq_2)
  have pre: "\<not> is_occupied (classroom_at test_heap (classroom (oop_exam 0 [0, 2]))) \<and>
     list_all (may_take (subject (oop_exam 0 [0, 2])) test_heap) (registered_students (oop_exam 0 [0, 2]))"
    by (simp add: oop_exam_def may_take_def test_heap_simps new_student_simps)
  have len: "length (registered_students (oop_exam 0 [0, 2])) = 2"
    by (simp add: oop_exam_def)
  have uni: "university_at (fst (snd (conduct (oop_exam 0 [0, 2]) (1 ## 4 ## sconst 0) test_heap))) = university_at test_heap"
    using conduct_returns_failed [of test_heap "oop_exam 0 [0, 2]" "1 ## 4 ## sconst 0"] by blast
  from conduct_returns_failed [of test_heap "oop_exam 0 [0, 2]" "1 ## 4 ## sconst 0"] pre
  obtain h' where c: "conduct (oop_exam 0 [0, 2]) (1 ## 4 ## sconst 0) test_heap =
               (Inr (map fst (filter (\<lambda>p. snd p < 4)
                       (zip (registered_students (oop_exam 0 [0, 2]))
                            (drawn_grades (length (registered_students (oop_exam 0 [0, 2]))) (1 ## 4 ## sconst 0))))),
                h', sdrop (length (registered_students (oop_exam 0 [0, 2]))) (1 ## 4 ## sconst 0))"
    and r: "\<forall>i < length (registered_students (oop_exam 0 [0, 2])).
                (\<forall>j. i < j \<and> j < length (registered_students (oop_exam 0 [0, 2]))
                      \<longrightarrow> registered_students (oop_exam 0 [0, 2]) ! j \<noteq> registered_students (oop_exam 0 [0, 2]) ! i)
                \<longrightarrow> map_of (record_book (student_at h' (registered_students (oop_exam 0 [0, 2]) ! i))) (subject (oop_exam 0 [0, 2]))
                      = Some (drawn_grades (length (registered_students (oop_exam 0 [0, 2]))) (1 ## 4 ## sconst 0) ! i)"
    and f: "\<not> is_occupied (classroom_at h' (classroom (oop_exam 0 [0, 2])))"
    by blast
  have c': "conduct (oop_exam 0 [0, 2]) (1 ## 4 ## sconst 0) test_heap = (Inr [0], h', sconst 0)"
    using c unfolding len dg by (simp add: oop_exam_def numeral_2_eq_2)
  have lt: "0 < length (registered_students (oop_exam 0 [0, 2]))"
           "1 < length (registered_students (oop_exam 0 [0, 2]))"
    by (simp_all add: oop_exam_def)
  have d0: "\<forall>j. 0 < j \<and> j < length (registered_students (oop_exam 0 [0, 2]))
      \<longrightarrow> registered_students (oop_exam 0 [0, 2]) ! j \<noteq> registered_students (oop_exam 0 [0, 2]) ! 0"
    by (auto simp: oop_exam_def less_Suc_eq)
  have d1: "\<forall>j. 1 < j \<and> j < length (registered_students (oop_exam 0 [0, 2]))
      \<longrightarrow> registered_students (oop_exam 0 [0, 2]) ! j \<noteq> registered_students (oop_exam 0 [0, 2]) ! 1"
    by (auto simp: oop_exam_def)
  from r lt(1) d0 have "map_of (record_book (student_at h' (registered_students (oop_exam 0 [0, 2]) ! 0)))
      (subject (oop_exam 0 [0, 2]))
      = Some (drawn_grades (length (registered_students (oop_exam 0 [0, 2]))) (1 ## 4 ## sconst 0) ! 0)"
    by blast
  then have r0: "map_of (record_book (student_at h' 0)) ''OOP'' = Some 2"
    unfolding len dg by (simp add: oop_exam_def)
  from r lt(2) d1 have "map_of (record_book (student_at h' (registered_students (oop_exam 0 [0, 2]) ! 1)))
      (subject (oop_exam 0 [0, 2]))
      = Some (drawn_grades (length (registered_students (oop_exam 0 [0, 2]))) (1 ## 4 ## sconst 0) ! 1)"
    by blast
  then have r1: "map_of (record_book (student_at h' 2)) ''OOP'' = Some 5"
    unfolding len dg by (simp add: oop_exam_def)
  have u: "students (university_at h' 0) = [0, 1, 3]"
    using uni c' by (simp add: test_heap_simps)
  show ?thesis
    using pre dg c' r0 r1 f u by (auto simp: oop_exam_def)
qed

text \<open>
  When \<^verbatim>\<open>conduct\<close> starts in a free classroom and raises, the classroom is left occupied:
  \<^verbatim>\<open>vacate\<close> is only reached after the loop.
\<close>

lemma conduct_raises_occupied:
  "\<not> is_occupied (classroom_at h (classroom e)) \<Longrightarrow> conduct e g h = (Inl err, h', g') \<Longrightarrow>
   is_occupied (classroom_at h' (classroom e))"
  by (auto simp: conduct_def occupy_def vacate_def
        split: if_splits prod.splits sum.splits dest!: grade_students_frame)

text \<open>
  Claim C1. The exam of the example has a free classroom and registers S1 and then S3,
  whose curriculum does not require the subject. \<^verbatim>\<open>conduct\<close> raises \<^verbatim>\<open>EnrollmentError\<close>
  while grading S3, and the classroom is still occupied afterwards.
\<close>

theorem conduct_raise_leaves_classroom_occupied:
  "\<not> is_occupied (classroom_at test_heap 0) \<and>
   fst (conduct (oop_exam 0 [0, 3]) (sconst 6) test_heap) = Inl EnrollmentError \<and>
   is_occupied (classroom_at (fst (snd (conduct (oop_exam 0 [0, 3]) (sconst 6) test_heap))) 0)"
  by (simp add: conduct_def occupy_def vacate_def randint_def evaluate_student_def take_exam_def
        oop_exam_def test_heap_simps new_student_simps)

section \<open>Rounding to binary64\<close>

text \<open>
  The rounding of the model is a rounding to nearest: below \<open>2\<^sup>1\<^sup>0\<^sup>2\<^sup>3\<close> the result is finite and
  differs from the argument by at most half a unit in the last place, and an integer of at
  most 53 bits is its own rounding.
\<close>

lemma round_half_even_error: "\<bar>of_int (round_half_even x) - x\<bar> \<le> 1 / 2"
proof -
  have "of_int \<lfloor>x\<rfloor> \<le> x" "x < of_int \<lfloor>x\<rfloor> + 1"
    by linarith+
  then show ?thesis
    by (auto simp: round_half_even_def Let_def abs_le_iff)
qed

lemma round_half_even_of_int [simp]: "round_half_even (of_int n) = n"
  by (simp add: round_half_even_def)

lemma quotient_of_pos:
  assumes "0 < a"
  shows "0 < fst (quotient_of a)" "0 < snd (quotient_of a)"
    "a = of_int (fst (quotient_of a)) / of_int (snd (quotient_of a))"
proof -
  obtain p q where pq: "quotient_of a = (p, q)" by (cases "quotient_of a")
  then have q: "0 < q" by (rule quotient_of_denom_pos)
  have a: "a = of_int p / of_int q" using pq by (rule quotient_of_div)
  with assms q have "0 < p" by (simp add: zero_less_divide_iff)
  with pq q a show "0 < fst (quotient_of a)" "0 < snd (quotient_of a)"
    "a = of_int (fst (quotient_of a)) / of_int (snd (quotient_of a))" by simp_all
qed

lemma bitlen_powi_bounds:
  assumes "0 < (n::int)"
  shows "(2::rat) powi (bitlen n - 1) \<le> of_int n" "(of_int n :: rat) < 2 powi (bitlen n)"
proof -
  have b: "2 ^ nat (bitlen n - 1) \<le> n" "n < 2 ^ nat (bitlen n)"
    using bitlen_bounds [OF assms] by simp_all
  have pos: "1 \<le> bitlen n"
    using assms bitlen_eq_zero_iff [of n] bitlen_nonneg [of n] by linarith
  have "(of_int (2 ^ nat (bitlen n - 1)) :: rat) \<le> of_int n"
    using b(1) by (simp only: of_int_le_iff)
  then show "(2::rat) powi (bitlen n - 1) \<le> of_int n"
    using pos by (simp add: power_int_def)
  have "(of_int n :: rat) < of_int (2 ^ nat (bitlen n))"
    using b(2) by (simp only: of_int_less_iff)
  then show "(of_int n :: rat) < 2 powi (bitlen n)"
    using pos by (simp add: power_int_def)
qed

lemma floor_log2_bounds:
  assumes "0 < a"
  shows "2 powi (floor_log2 a) \<le> a" "a < 2 powi (floor_log2 a + 1)"
proof -
  define p where "p = fst (quotient_of a)"
  define q where "q = snd (quotient_of a)"
  define d where "d = bitlen p - bitlen q"
  have p: "0 < p" and q: "0 < q" and a: "a = of_int p / of_int q"
    using quotient_of_pos [OF assms] by (simp_all add: p_def q_def)
  have qr: "(0::rat) < of_int q" using q by simp
  have two: "(2::rat) \<noteq> 0" by simp
  have lo: "2 powi (d - 1) < a"
  proof -
    have "(2::rat) powi (d - 1) * of_int q < 2 powi (d - 1) * 2 powi (bitlen q)"
      using bitlen_powi_bounds(2) [OF q] by (simp add: mult_strict_left_mono)
    also have "\<dots> = 2 powi (bitlen p - 1)"
      by (simp add: d_def power_int_add [symmetric])
    also have "\<dots> \<le> of_int p" by (rule bitlen_powi_bounds(1) [OF p])
    finally show ?thesis using qr by (simp add: a pos_less_divide_eq)
  qed
  have hi: "a < 2 powi (d + 1)"
  proof -
    have "(of_int p :: rat) < 2 powi (bitlen p)" by (rule bitlen_powi_bounds(2) [OF p])
    also have "\<dots> = 2 powi (d + 1) * 2 powi (bitlen q - 1)"
      by (simp add: d_def power_int_add [symmetric])
    also have "\<dots> \<le> 2 powi (d + 1) * of_int q"
      using bitlen_powi_bounds(1) [OF q] by (simp add: mult_left_mono)
    finally show ?thesis using qr by (simp add: a pos_divide_less_eq)
  qed
  have fl: "floor_log2 a = (if 2 powi d \<le> a then d else d - 1)"
    by (simp add: floor_log2_def Let_def d_def p_def q_def)
  show "2 powi (floor_log2 a) \<le> a"
    using lo by (simp add: fl)
  show "a < 2 powi (floor_log2 a + 1)"
    using hi by (auto simp: fl not_le)
qed

lemma round_to_double_finite:
  assumes small: "\<bar>x\<bar> < 2 powi 1023"
  shows "\<exists>r. round_to_double x = Finite r \<and>
             \<bar>r - x\<bar> \<le> max (\<bar>x\<bar> / 2 ^ 53) (2 powi (- 1075))"
proof (cases "x = 0")
  case True
  then show ?thesis by (simp add: round_to_double_def)
next
  case False
  define a where "a = \<bar>x\<bar>"
  define e where "e = floor_log2 a"
  define q where "q = max (e - 52) (- 1074)"
  define t :: rat where "t = 2 powi q"
  define m where "m = round_half_even (a / t)"
  define r where "r = of_int m * t"
  have a: "0 < a" using False by (simp add: a_def)
  have t: "0 < t" by (simp add: t_def)
  have lo: "2 powi e \<le> a" and hi: "a < 2 powi (e + 1)"
    using floor_log2_bounds [OF a] by (simp_all add: e_def)
  have e: "e < 1023"
  proof (rule ccontr)
    assume "\<not> e < 1023"
    then have "(2::rat) powi 1023 \<le> 2 powi e"
      by (intro power_int_increasing) simp_all
    with lo small show False by (simp add: a_def)
  qed
  have q970: "q \<le> 970" using e by (simp add: q_def)
  have "\<bar>of_int m - a / t\<bar> \<le> 1 / 2"
    unfolding m_def by (rule round_half_even_error)
  then have "t * \<bar>of_int m - a / t\<bar> \<le> t * (1 / 2)"
    using t by (intro mult_left_mono) simp_all
  moreover have "t * \<bar>of_int m - a / t\<bar> = \<bar>r - a\<bar>"
  proof -
    have "t * \<bar>of_int m - a / t\<bar> = \<bar>t * (of_int m - a / t)\<bar>"
      using t by (simp add: abs_mult)
    also have "t * (of_int m - a / t) = r - a"
      using t by (simp add: r_def algebra_simps)
    finally show ?thesis .
  qed
  ultimately have err: "\<bar>r - a\<bar> \<le> t / 2" by simp
  have half: "t / 2 \<le> max (a / 2 ^ 53) (2 powi (- 1075))"
  proof (cases "- 1074 \<le> e - 52")
    case True
    then have "q = e - 52" by (simp add: q_def)
    then have "t / 2 = 2 powi (e - 53)"
      unfolding t_def using power_int_diff [of "2::rat" "e - 52" 1] by simp
    also have "\<dots> = 2 powi e / 2 ^ 53"
      using power_int_diff [of "2::rat" e 53] by simp
    also have "\<dots> \<le> a / 2 ^ 53"
      using lo by (simp add: divide_right_mono)
    finally show ?thesis by simp
  next
    case False
    then have "q = - 1074" by (simp add: q_def)
    then have "t / 2 = 2 powi (- 1075)"
      unfolding t_def using power_int_diff [of "2::rat" "- 1074" 1] by simp
    then show ?thesis by simp
  qed
  have "t \<le> 2 powi 970"
    unfolding t_def using q970 by (intro power_int_increasing) simp_all
  moreover have "(2::rat) powi 970 \<le> 2 powi 1023"
    by (intro power_int_increasing) simp_all
  moreover have "(2::rat) powi 1024 = 2 * 2 powi 1023"
    using power_int_add_1' [of "2::rat" 1023] by simp
  moreover have "r \<le> a + t / 2" using err by linarith
  ultimately have fin: "r < 2 powi 1024"
    using small t by (simp add: a_def)
  have rd: "round_to_double x = Finite (if 0 < x then r else - r)"
    using False fin
    by (simp add: round_to_double_def Let_def r_def m_def t_def q_def e_def a_def not_le)
  have "\<bar>(if 0 < x then r else - r) - x\<bar> = \<bar>r - a\<bar>"
    using False by (auto simp: a_def)
  with err half rd show ?thesis
    by (simp add: a_def)
qed

lemma round_to_double_of_int:
  assumes "\<bar>n\<bar> \<le> 2 ^ 53"
  shows "round_to_double (of_int n) = Finite (of_int n)"
proof (cases "n = 0")
  case True
  then show ?thesis by (simp add: round_to_double_def)
next
  case False
  define a :: rat where "a = \<bar>of_int n\<bar>"
  define e where "e = floor_log2 a"
  define q where "q = max (e - 52) (- 1074)"
  have a: "0 < a" and a1: "1 \<le> a" using False by (simp_all add: a_def)
  have a53: "a \<le> 2 powi 53"
  proof -
    have "(of_int \<bar>n\<bar> :: rat) \<le> of_int (2 ^ 53)"
      using assms by (simp only: of_int_le_iff)
    then show ?thesis by (simp add: a_def)
  qed
  have lo: "2 powi e \<le> a" and hi: "a < 2 powi (e + 1)"
    using floor_log2_bounds [OF a] by (simp_all add: e_def)
  have e0: "0 \<le> e"
  proof (rule ccontr)
    assume "\<not> 0 \<le> e"
    then have "(2::rat) powi (e + 1) \<le> 2 powi 0"
      by (intro power_int_increasing) simp_all
    with hi a1 show False by simp
  qed
  have e53: "e \<le> 53"
  proof (rule ccontr)
    assume "\<not> e \<le> 53"
    then have "(2::rat) powi 54 \<le> 2 powi e"
      by (intro power_int_increasing) simp_all
    moreover have "(2::rat) powi 53 < 2 powi 54"
      by (intro power_int_strict_increasing) simp_all
    ultimately show False using lo a53 by linarith
  qed
  show ?thesis
  proof (cases "e \<le> 52")
    case True
    then have q: "q = e - 52" and qn: "q \<le> 0" using e0 by (simp_all add: q_def)
    have "a / 2 powi q = a * 2 ^ nat (- q)"
      using qn by (simp add: power_int_def field_simps)
    also have "\<dots> = of_int (\<bar>n\<bar> * 2 ^ nat (- q))"
      by (simp add: a_def)
    finally have "round_half_even (a / 2 powi q) = \<bar>n\<bar> * 2 ^ nat (- q)"
      by (simp only: round_half_even_of_int)
    then have r: "of_int (round_half_even (a / 2 powi q)) * 2 powi q = a"
      using qn by (simp add: power_int_def a_def field_simps)
    have "(2::rat) powi 53 < 2 powi 1024"
      by (intro power_int_strict_increasing) simp_all
    with a53 have fin: "a < 2 powi 1024" by linarith
    show ?thesis
      using False r fin
      by (auto simp: round_to_double_def Let_def q_def e_def a_def not_le)
  next
    case False
    with e53 have e: "e = 53" by simp
    then have a_eq: "a = 2 powi 53" using lo a53 by simp
    have q: "q = 1" using e by (simp add: q_def)
    have "a / 2 powi q = of_int (2 ^ 52)"
      by (simp add: a_eq q)
    then have "round_half_even (a / 2 powi q) = 2 ^ 52"
      by (simp only: round_half_even_of_int)
    then have r: "of_int (round_half_even (a / 2 powi q)) * 2 powi q = a"
      by (simp add: a_eq q)
    have "(2::rat) powi 53 < 2 powi 1024"
      by (intro power_int_strict_increasing) simp_all
    with a53 have fin: "a < 2 powi 1024" by linarith
    show ?thesis
      using \<open>n \<noteq> 0\<close> r fin
      by (auto simp: round_to_double_def Let_def q_def e_def a_def not_le)
  qed
qed

section \<open>Student.average_score\<close>

lemma sum_grades_bounds:
  "\<forall>e \<in> set rb. 0 \<le> snd e \<and> snd e \<le> (10::int) \<Longrightarrow>
   0 \<le> sum_list (map snd rb) \<and> sum_list (map snd rb) \<le> 10 * int (length rb)"
  by (induction rb) auto

lemma average_score_nonempty:
  "record_book s \<noteq> [] \<Longrightarrow>
   average_score s = (case round_to_double (mean_grade s) of
                        Finite r \<Rightarrow> Inr (Finite r) | _ \<Rightarrow> Inl OverflowError)"
  by (simp add: average_score_def int_truediv_def mean_grade_def)

lemma mean_grade_examples:
  "mean_grade (s\<lparr>record_book := [(''A'', 8), (''B'', 8)]\<rparr>) = of_int 8"
  "mean_grade (s\<lparr>record_book := [(''A'', 4), (''B'', 4)]\<rparr>) = of_int 4"
  "mean_grade (s\<lparr>record_book := [(''Math'', 8), (''Code'', 10)]\<rparr>) = of_int 9"
  by (simp_all add: mean_grade_def)

text \<open>
  Claim C9. \<^verbatim>\<open>average_score\<close> is the float \<open>0.0\<close>, and no error, on an empty record book.
  On a record book with grades it is the arithmetic mean of all the grades, as the float
  division of their sum by their number gives it: the float nearest to the mean (within a
  relative error of \<open>2\<^sup>-\<^sup>5\<^sup>3\<close>), and the mean itself when the mean is an integer. Grades in
  \<open>[0, 10]\<close>, the only ones \<^verbatim>\<open>take_exam\<close> records, give a mean in \<open>[0, 10]\<close>, far from overflow.
  With the grades 8 and 10 the result is exactly \<open>9.0\<close>.
\<close>

theorem average_score_is_mean:
  "(record_book s = [] \<longrightarrow> average_score s = Inr (Finite 0)) \<and>
   (record_book s \<noteq> [] \<and> \<bar>mean_grade s\<bar> < 2 powi 1023
      \<longrightarrow> (\<exists>r. average_score s = Inr (Finite r) \<and>
               \<bar>r - mean_grade s\<bar> \<le> max (\<bar>mean_grade s\<bar> / 2 ^ 53) (2 powi (- 1075)))) \<and>
   (record_book s \<noteq> [] \<and> (\<forall>e \<in> set (record_book s). 0 \<le> snd e \<and> snd e \<le> 10)
      \<longrightarrow> 0 \<le> mean_grade s \<and> mean_grade s \<le> 10 \<and> \<bar>mean_grade s\<bar> < 2 powi 1023) \<and>
   (record_book s \<noteq> [] \<and> mean_grade s = of_int n \<and> \<bar>n\<bar> \<le> 2 ^ 53
      \<longrightarrow> average_score s = Inr (Finite (mean_grade s))) \<and>
   (map snd (record_book s) = [8, 10] \<or> map snd (record_book s) = [10, 8]
      \<longrightarrow> mean_grade s = 9 \<and> average_score s = Inr (Finite 9))"
proof (intro conjI impI)
  assume "record_book s = []"
  then show "average_score s = Inr (Finite 0)" by (simp add: average_score_def)
next
  assume a: "record_book s \<noteq> [] \<and> \<bar>mean_grade s\<bar> < 2 powi 1023"
  then obtain r where "round_to_double (mean_grade s) = Finite r"
    and "\<bar>r - mean_grade s\<bar> \<le> max (\<bar>mean_grade s\<bar> / 2 ^ 53) (2 powi (- 1075))"
    using round_to_double_finite [of "mean_grade s"] by blast
  with a show "\<exists>r. average_score s = Inr (Finite r) \<and>
               \<bar>r - mean_grade s\<bar> \<le> max (\<bar>mean_grade s\<bar> / 2 ^ 53) (2 powi (- 1075))"
    by (simp add: average_score_nonempty)
next
  assume a: "record_book s \<noteq> [] \<and> (\<forall>e \<in> set (record_book s). 0 \<le> snd e \<and> snd e \<le> 10)"
  then have len: "0 < length (record_book s)" by simp
  from a have s: "0 \<le> sum_list (map snd (record_book s))"
    "sum_list (map snd (record_book s)) \<le> 10 * int (length (record_book s))"
    using sum_grades_bounds [of "record_book s"] by simp_all
  have m0: "0 \<le> mean_grade s"
    using s(1) by (simp add: mean_grade_def)
  have "(of_int (sum_list (map snd (record_book s))) :: rat) \<le> of_int (10 * int (length (record_book s)))"
    using s(2) by (simp only: of_int_le_iff)
  then have m10: "mean_grade s \<le> 10"
    using len by (simp add: mean_grade_def pos_divide_le_eq)
  have "(10::rat) < 2 powi 4" by simp
  also have "(2::rat) powi 4 \<le> 2 powi 1023" by (intro power_int_increasing) simp_all
  finally have "\<bar>mean_grade s\<bar> < 2 powi 1023" using m0 m10 by simp
  with m0 m10 show "0 \<le> mean_grade s" "mean_grade s \<le> 10" "\<bar>mean_grade s\<bar> < 2 powi 1023"
    by simp_all
next
  assume a: "record_book s \<noteq> [] \<and> mean_grade s = of_int n \<and> \<bar>n\<bar> \<le> 2 ^ 53"
  then show "average_score s = Inr (Finite (mean_grade s))"
    using round_to_double_of_int [of n] by (simp add: average_score_nonempty)
next
  assume a: "map snd (record_book s) = [8, 10] \<or> map snd (record_book s) = [10, 8]"
  then have ne: "record_book s \<noteq> []" by auto
  from a have len: "length (record_book s) = 2"
    by (metis length_map length_Cons list.size(3) numeral_2_eq_2)
  from a have m: "mean_grade s = of_int 9"
    by (auto simp: mean_grade_def len)
  then show "mean_grade s = 9" by simp
  show "average_score s = Inr (Finite 9)"
    using ne m round_to_double_of_int [of 9] by (simp add: average_score_nonempty)
qed

theorem average_score_is_mean_witness:
  "average_score (new_student ''Ivan'' 20 ''id-0'' (Some 0)) = Inr (Finite 0) \<and>
   record_book ((new_student ''Ivan'' 20 ''id-0'' (Some 0))
                  \<lparr>record_book := [(''Math'', 8), (''Code'', 10)]\<rparr>) \<noteq> [] \<and>
   mean_grade ((new_student ''Ivan'' 20 ''id-0'' (Some 0))
                  \<lparr>record_book := [(''Math'', 8), (''Code'', 10)]\<rparr>) = 9 \<and>
   average_score ((new_student ''Ivan'' 20 ''id-0'' (Some 0))
                  \<lparr>record_book := [(''Math'', 8), (''Code'', 10)]\<rparr>) = Inr (Finite 9)"
  using average_score_is_mean [of "new_student ''Ivan'' 20 ''id-0'' (Some 0)" 0]
        average_score_is_mean [of "(new_student ''Ivan'' 20 ''id-0'' (Some 0))
                  \<lparr>record_book := [(''Math'', 8), (''Code'', 10)]\<rparr>" 9]
  by (simp add: new_student_def)

section \<open>ScholarshipDepartment.calculate_and_assign\<close>

lemma average_score_scholarship [simp]:
  "average_score (s\<lparr>scholarship_amount := a\<rparr>) = average_score s"
  by (simp add: average_score_def)

lemma expected_scholarship_scholarship [simp]:
  "expected_scholarship dept (s\<lparr>scholarship_amount := a\<rparr>) = expected_scholarship dept s"
  by (simp add: expected_scholarship_def)

lemma assign_each_ok:
  "\<forall>r \<in> set studs. \<exists>score. average_score (student_at h r) = Inr score \<Longrightarrow>
   \<exists>c. assign_each dept studs count h =
     (Inr c,
      h\<lparr>student_at := (\<lambda>r. if r \<in> set studs
                              then (student_at h r)\<lparr>scholarship_amount :=
                                     expected_scholarship dept (student_at h r)\<rparr>
                              else student_at h r)\<rparr>)"
proof (induction studs arbitrary: count h)
  case Nil
  then show ?case by simp
next
  case (Cons student rest)
  then obtain score where sc: "average_score (student_at h student) = Inr score" by auto
  let ?amt = "expected_scholarship dept (student_at h student)"
  let ?h1 = "assign_scholarship student ?amt h"
  have st1: "\<And>r. student_at ?h1 r =
      (if r = student then (student_at h student)\<lparr>scholarship_amount := ?amt\<rparr> else student_at h r)"
    by (simp add: assign_scholarship_def)
  have pre: "\<forall>r \<in> set rest. \<exists>score. average_score (student_at ?h1 r) = Inr score"
    using Cons.prems by (auto simp: st1)
  have target: "?h1\<lparr>student_at := (\<lambda>r. if r \<in> set rest
                              then (student_at ?h1 r)\<lparr>scholarship_amount :=
                                     expected_scholarship dept (student_at ?h1 r)\<rparr>
                              else student_at ?h1 r)\<rparr>
      = h\<lparr>student_at := (\<lambda>r. if r \<in> set (student # rest)
                              then (student_at h r)\<lparr>scholarship_amount :=
                                     expected_scholarship dept (student_at h r)\<rparr>
                              else student_at h r)\<rparr>"
    by (auto simp: st1 fun_eq_iff assign_scholarship_def)
  show ?case
  proof (cases "float_ge score (min_average_score dept)")
    case True
    then have amt: "?amt = scholarship_formula dept score"
      by (simp add: expected_scholarship_def sc)
    have step: "assign_each dept (student # rest) count h = assign_each dept rest (count + 1) ?h1"
      using True by (simp add: sc amt scholarship_formula_def Let_def)
    from Cons.IH [OF pre, of "count + 1"] show ?thesis
      unfolding step target by simp
  next
    case False
    then have amt: "?amt = Finite 0"
      by (simp add: expected_scholarship_def sc)
    have step: "assign_each dept (student # rest) count h = assign_each dept rest count ?h1"
      using False by (simp add: sc amt)
    from Cons.IH [OF pre, of count] show ?thesis
      unfolding step target by simp
  qed
qed

lemma average_score_examples:
  "average_score (s\<lparr>record_book := [(''A'', 8), (''B'', 8)]\<rparr>) = Inr (Finite 8)"
  "average_score (s\<lparr>record_book := [(''A'', 4), (''B'', 4)]\<rparr>) = Inr (Finite 4)"
  using round_to_double_of_int [of 8] round_to_double_of_int [of 4]
  by (simp_all add: average_score_nonempty mean_grade_examples del: of_int_numeral)

lemma scholarship_heap_simps:
  "student_at scholarship_heap 0 =
     (new_student ''Good'' 20 ''id-0'' None)\<lparr>record_book := [(''A'', 8), (''B'', 8)]\<rparr>"
  "student_at scholarship_heap 2 =
     (new_student ''Bad'' 20 ''id-2'' None)\<lparr>record_book := [(''A'', 4), (''B'', 4)]\<rparr>"
  by (simp_all add: scholarship_heap_def)

text \<open>
  Claim C7. When the average score of every student of the list can be computed,
  \<^verbatim>\<open>calculate_and_assign\<close> returns normally and has assigned a scholarship to every student
  of the list: \<^verbatim>\<open>round(base_amount * (1 + (average_score - min_average_score) * 0.1), 2)\<close>,
  in float arithmetic, to those whose average is \<open>\<ge>\<close> the minimum, and \<open>0.0\<close> to the others;
  the students outside the list and all record books are untouched. With the minimum \<open>6.0\<close>
  and the base \<open>100.0\<close>, an average of \<open>8.0\<close> qualifies and gives exactly \<open>120.0\<close>, and an
  average of \<open>4.0\<close> does not qualify.
\<close>

theorem calculate_and_assign_amounts:
  "((\<forall>r \<in> set studs. \<exists>score. average_score (student_at h r) = Inr score)
      \<longrightarrow> (\<exists>h'. calculate_and_assign dept studs h = (Inr (), h') \<and>
            (\<forall>r \<in> set studs. \<forall>score. average_score (student_at h r) = Inr score \<longrightarrow>
               scholarship_amount (student_at h' r) =
                 (if float_ge score (min_average_score dept)
                  then scholarship_formula dept score else Finite 0)) \<and>
            (\<forall>r. r \<notin> set studs \<longrightarrow> student_at h' r = student_at h r) \<and>
            (\<forall>r. record_book (student_at h' r) = record_book (student_at h r)))) \<and>
   float_ge (Finite 8) (Finite 6) \<and>
   scholarship_formula \<lparr>min_average_score = Finite 6, base_amount = Finite 100\<rparr> (Finite 8)
     = Finite 120 \<and>
   \<not> float_ge (Finite 4) (Finite 6)"
proof (intro conjI impI)
  assume a: "\<forall>r \<in> set studs. \<exists>score. average_score (student_at h r) = Inr score"
  let ?h' = "h\<lparr>student_at := (\<lambda>r. if r \<in> set studs
                              then (student_at h r)\<lparr>scholarship_amount :=
                                     expected_scholarship dept (student_at h r)\<rparr>
                              else student_at h r)\<rparr>"
  from assign_each_ok [OF a, of dept 0]
  have res: "calculate_and_assign dept studs h = (Inr (), ?h')"
    by (auto simp: calculate_and_assign_def)
  show "\<exists>h'. calculate_and_assign dept studs h = (Inr (), h') \<and>
            (\<forall>r \<in> set studs. \<forall>score. average_score (student_at h r) = Inr score \<longrightarrow>
               scholarship_amount (student_at h' r) =
                 (if float_ge score (min_average_score dept)
                  then scholarship_formula dept score else Finite 0)) \<and>
            (\<forall>r. r \<notin> set studs \<longrightarrow> student_at h' r = student_at h r) \<and>
            (\<forall>r. record_book (student_at h' r) = record_book (student_at h r))"
    by (rule exI [of _ ?h']) (simp add: res expected_scholarship_def)
next
  show "float_ge (Finite 8) (Finite 6)" by simp
next
  show "scholarship_formula \<lparr>min_average_score = Finite 6, base_amount = Finite 100\<rparr> (Finite 8)
     = Finite 120"
    by code_simp
next
  show "\<not> float_ge (Finite 4) (Finite 6)" by simp
qed

theorem calculate_and_assign_amounts_witness:
  "average_score (student_at scholarship_heap 0) = Inr (Finite 8) \<and>
   average_score (student_at scholarship_heap 2) = Inr (Finite 4) \<and>
   (\<exists>h'. calculate_and_assign test_dept [0, 2] scholarship_heap = (Inr (), h') \<and>
         scholarship_amount (student_at h' 0) = Finite 120 \<and>
         scholarship_amount (student_at h' 2) = Finite 0)"
proof -
  have a0: "average_score (student_at scholarship_heap 0) = Inr (Finite 8)"
    and a2: "average_score (student_at scholarship_heap 2) = Inr (Finite 4)"
    by (simp_all add: scholarship_heap_simps average_score_examples)
  have pre: "\<forall>r \<in> set [0, 2]. \<exists>score. average_score (student_at scholarship_heap r) = Inr score"
    using a0 a2 by simp
  from calculate_and_assign_amounts [of "[0, 2]" scholarship_heap test_dept] pre
  obtain h' where r: "calculate_and_assign test_dept [0, 2] scholarship_heap = (Inr (), h')"
    and s: "\<forall>r \<in> set [0, 2]. \<forall>score. average_score (student_at scholarship_heap r) = Inr score \<longrightarrow>
               scholarship_amount (student_at h' r) =
                 (if float_ge score (min_average_score test_dept)
                  then scholarship_formula test_dept score else Finite 0)"
    and f: "scholarship_formula \<lparr>min_average_score = Finite 6, base_amount = Finite 100\<rparr> (Finite 8)
              = Finite 120"
    by blast
  have "scholarship_amount (student_at h' 0) = Finite 120"
    using s a0 f by (simp add: test_dept_def)
  moreover have "scholarship_amount (student_at h' 2) = Finite 0"
    using s a2 by (simp add: test_dept_def)
  ultimately show ?thesis using a0 a2 r by simp
qed

section \<open>University\<close>

text \<open>
  Claim C8. \<^verbatim>\<open>enroll_student\<close> compares the lower-cased specialty names with the
  lower-cased argument. When no curriculum of the university matches, it raises
  \<^verbatim>\<open>EnrollmentError\<close> and the whole state, the student list with it, is as before. Otherwise,
  with \<open>c\<close> the first curriculum that matches, it returns a newly allocated Student, whose
  curriculum is the reference \<open>c\<close> and which is appended, alone, to the student list; no other
  Student object changes, and the new reference is not in the list before.
\<close>

theorem enroll_student_outcomes:
  "((\<forall>c \<in> set (curriculums (university_at h u)).
       lower (specialty_name (curriculum_at h c)) \<noteq> lower curriculum_name)
      \<longrightarrow> enroll_student lower u nm ag curriculum_name new_id h = (Inl EnrollmentError, h)) \<and>
   (find (\<lambda>c. lower (specialty_name (curriculum_at h c)) = lower curriculum_name)
         (curriculums (university_at h u)) = Some c
      \<longrightarrow> (\<exists>h'. enroll_student lower u nm ag curriculum_name new_id h = (Inr (next_ref h), h') \<and>
            students (university_at h' u) = students (university_at h u) @ [next_ref h] \<and>
            student_at h' (next_ref h) =
              \<lparr>full_name = nm, age = ag, person_id = new_id, curriculum = Some c,
               scholarship_amount = Finite 0, record_book = [], borrowed_books = []\<rparr> \<and>
            (\<forall>r. r \<noteq> next_ref h \<longrightarrow> student_at h' r = student_at h r) \<and>
            curriculum_at h' = curriculum_at h \<and>
            ((\<forall>r \<in> set (students (university_at h u)). r < next_ref h)
               \<longrightarrow> next_ref h \<notin> set (students (university_at h u)) \<and>
                   (\<forall>r \<in> set (students (university_at h' u)). r < next_ref h'))))"
proof (intro conjI impI)
  assume "\<forall>c \<in> set (curriculums (university_at h u)).
       lower (specialty_name (curriculum_at h c)) \<noteq> lower curriculum_name"
  then have "get_curriculum lower u curriculum_name h = None"
    by (simp add: get_curriculum_def find_None_iff)
  then show "enroll_student lower u nm ag curriculum_name new_id h = (Inl EnrollmentError, h)"
    by (simp add: enroll_student_def)
next
  assume "find (\<lambda>c. lower (specialty_name (curriculum_at h c)) = lower curriculum_name)
         (curriculums (university_at h u)) = Some c"
  then have "get_curriculum lower u curriculum_name h = Some c"
    by (simp add: get_curriculum_def)
  then show "\<exists>h'. enroll_student lower u nm ag curriculum_name new_id h = (Inr (next_ref h), h') \<and>
            students (university_at h' u) = students (university_at h u) @ [next_ref h] \<and>
            student_at h' (next_ref h) =
              \<lparr>full_name = nm, age = ag, person_id = new_id, curriculum = Some c,
               scholarship_amount = Finite 0, record_book = [], borrowed_books = []\<rparr> \<and>
            (\<forall>r. r \<noteq> next_ref h \<longrightarrow> student_at h' r = student_at h r) \<and>
            curriculum_at h' = curriculum_at h \<and>
            ((\<forall>r \<in> set (students (university_at h u)). r < next_ref h)
               \<longrightarrow> next_ref h \<notin> set (students (university_at h u)) \<and>
                   (\<forall>r \<in> set (students (university_at h' u)). r < next_ref h'))"
    by (auto simp: enroll_student_def Let_def)
qed

theorem enroll_student_outcomes_witness:
  "enroll_student ascii_lower 0 ''Eve'' 20 ''Biology'' ''id-4'' test_heap = (Inl EnrollmentError, test_heap) \<and>
   (\<exists>h'. enroll_student ascii_lower 0 ''Bob'' 19 ''it'' ''id-4'' test_heap = (Inr 4, h') \<and>
         students (university_at h' 0) = [0, 1, 3, 4] \<and>
         student_at h' 4 = new_student ''Bob'' 19 ''id-4'' (Some 0))"
  using enroll_student_outcomes [of test_heap 0 ascii_lower "''Biology''" "''Eve''" 20 "''id-4''" 0]
        enroll_student_outcomes [of test_heap 0 ascii_lower "''it''" "''Bob''" 19 "''id-4''" 0]
  by (auto simp: test_heap_simps ascii_lower_def new_student_def)

text \<open>
  Claim C10. \<^verbatim>\<open>create_exam\<close> raises \<^verbatim>\<open>EnrollmentError\<close>, with the state unchanged, when the
  subject is not among the teacher's subjects. In every other case, whatever the classroom
  (occupied or not, of any capacity) and whatever the list of students, it returns the new
  Exam and appends it to the exam list of the university.
\<close>

theorem create_exam_outcomes:
  "(subj \<notin> set (subjects (teacher_at h tch))
      \<longrightarrow> create_exam u subj tch room studs now h = (Inl EnrollmentError, h)) \<and>
   (subj \<in> set (subjects (teacher_at h tch))
      \<longrightarrow> (\<exists>h'. create_exam u subj tch room studs now h =
              (Inr \<lparr>subject = subj, date = now, teacher = tch, classroom = room,
                    registered_students = studs\<rparr>, h') \<and>
            exams (university_at h' u) = exams (university_at h u) @
              [\<lparr>subject = subj, date = now, teacher = tch, classroom = room,
                registered_students = studs\<rparr>] \<and>
            students (university_at h' u) = students (university_at h u) \<and>
            (\<forall>v. v \<noteq> u \<longrightarrow> university_at h' v = university_at h v) \<and>
            student_at h' = student_at h \<and> classroom_at h' = classroom_at h \<and>
            teacher_at h' = teacher_at h))"
  by (simp add: create_exam_def Let_def)

theorem create_exam_outcomes_witness:
  "create_exam 0 ''Math'' 0 0 [0] 0 test_heap = (Inl EnrollmentError, test_heap) \<and>
   is_occupied (classroom_at test_heap 1) \<and> capacity (classroom_at test_heap 1) = 1 \<and>
   fst (create_exam 0 ''OOP'' 0 1 [0, 1, 2] 0 test_heap) = Inr (oop_exam 1 [0, 1, 2]) \<and>
   exams (university_at (snd (create_exam 0 ''OOP'' 0 1 [0, 1, 2] 0 test_heap)) 0) = [oop_exam 1 [0, 1, 2]] \<and>
   fst (create_exam 0 ''OOP'' 0 0 [] 0 test_heap) = Inr (oop_exam 0 [])"
  using create_exam_outcomes [of "''Math''" test_heap 0 0 0 "[0]" 0]
        create_exam_outcomes [of "''OOP''" test_heap 0 0 1 "[0, 1, 2]" 0]
        create_exam_outcomes [of "''OOP''" test_heap 0 0 0 "[]" 0]
  by (auto simp: test_heap_simps oop_exam_def)

end
